theory Spec2Isabelle
  imports Complex_Main "HOL-Library.Word" "HOL-Library.Stream" "HOL-Library.Monad_Syntax"
begin

unbundle bit_operations_syntax

section \<open>The Skywatcher motor-controller API (skywatcherAPI.cpp / skywatcherAPI.h)\<close>

text \<open>
  Conventions of the embedding.
  \<^item> \<open>long\<close> and \<open>unsigned long\<close> are 64-bit words (LP64), \<open>uint32_t\<close> is a 32-bit word;
    signed comparisons are written with \<open>sint\<close>.
  \<^item> \<open>char\<close> is a signed byte, as on x86-64; only characters above 0x7F are read
    differently where \<open>char\<close> is unsigned.
  \<^item> \<open>double\<close> values are real numbers. The constants that a rate is compared with
    (\<open>SIDEREALRATE\<close>, \<open>LOW_SPEED_MARGIN\<close>, \<open>SIDEREALRATE / 1000.0\<close>) are the doubles that
    the constant expressions evaluate to in IEEE 754 binary64 arithmetic, and comparisons
    are exact; the rounding of the other operations is not modelled. A division by zero
    and a conversion to \<open>long\<close> that leaves the range of \<open>long\<close> have no value in the
    model.
  \<^item> An operation whose result is an option returns \<open>None\<close> where the source has no
    defined result in this model: a poll that never ends, a \<open>std::string\<close> read past its
    end, or one of the two cases of the previous item.
\<close>

subsection \<open>Wire codec\<close>

type_synonym long = "64 word"
type_synonym ulong = "64 word"

text \<open>The integer value of a \<open>char\<close> after promotion to \<open>int\<close>.\<close>

definition char_int :: "char \<Rightarrow> int" where
  "char_int c = (if (of_char c :: nat) < 128 then int (of_char c) else int (of_char c) - 256)"

text \<open>
  \<^verbatim>\<open>#define HEX(c) (((c) < 'A') ? ((c) - '0') : ((c) - 'A') + 10)\<close>
\<close>

definition HEX :: "char \<Rightarrow> int" where
  "HEX c = (if char_int c < char_int CHR ''A'' then char_int c - char_int CHR ''0''
            else (char_int c - char_int CHR ''A'') + 10)"

definition BCDstr2long :: "string \<Rightarrow> ulong" where
  "BCDstr2long String =
     (if length String \<noteq> 6 then 0
      else
        let v = of_int (HEX (String ! 4));
            v = push_bit 4 v;
            v = v OR of_int (HEX (String ! 5));
            v = push_bit 4 v;
            v = v OR of_int (HEX (String ! 2));
            v = push_bit 4 v;
            v = v OR of_int (HEX (String ! 3));
            v = push_bit 4 v;
            v = v OR of_int (HEX (String ! 0));
            v = push_bit 4 v;
            v = v OR of_int (HEX (String ! 1))
        in v)"

definition Highstr2long :: "string \<Rightarrow> ulong" where
  "Highstr2long String =
     (if length String < 2 then 0
      else
        let res = of_int (HEX (String ! 0));
            res = push_bit 4 res;
            res = res OR of_int (HEX (String ! 1))
        in res)"

text \<open>
  Stream formatting of a non-negative integer under \<open>std::hex\<close>: the hexadecimal digits,
  most significant first, in upper case under \<open>std::uppercase\<close>; \<open>std::setw\<close> with
  \<open>std::setfill\<close> pads on the left up to the width.
\<close>

definition hex_digit :: "bool \<Rightarrow> nat \<Rightarrow> char" where
  "hex_digit uppercase d =
     (if uppercase then ''0123456789ABCDEF'' ! d else ''0123456789abcdef'' ! d)"

fun hex_digits :: "bool \<Rightarrow> nat \<Rightarrow> string" where
  "hex_digits uppercase n =
     (if n < 16 then [hex_digit uppercase n]
      else hex_digits uppercase (n div 16) @ [hex_digit uppercase (n mod 16)])"

declare hex_digits.simps [simp del]

definition setw_setfill :: "nat \<Rightarrow> char \<Rightarrow> string \<Rightarrow> string" where
  "setw_setfill w c str = replicate (w - length str) c @ str"

text \<open>
  The three masked operands are non-negative, so the right shifts of the signed
  \<open>long\<close> are logical shifts, and a \<open>long\<close> printed under \<open>std::hex\<close> shows its
  unsigned value.
\<close>

definition Long2BCDstr :: "long \<Rightarrow> string" where
  "Long2BCDstr Number =
     setw_setfill 2 CHR ''0'' (hex_digits True (unat (Number AND 0xff)))
     @ setw_setfill 2 CHR ''0'' (hex_digits True (unat (drop_bit 8 (Number AND 0xff00))))
     @ setw_setfill 2 CHR ''0'' (hex_digits True (unat (drop_bit 16 (Number AND 0xff0000))))"

subsection \<open>Data model\<close>

datatype AXISID = AXIS1 | AXIS2

record AXISSTATUS =
  FullStop :: bool
  Slewing :: bool
  SlewingTo :: bool
  SlewingForward :: bool
  HighSpeed :: bool
  NotInitialized :: bool

definition SetFullStop :: "AXISSTATUS \<Rightarrow> AXISSTATUS" where
  "SetFullStop st = st\<lparr>FullStop := True, Slewing := False, SlewingTo := False\<rparr>"

definition SetSlewing :: "bool \<Rightarrow> bool \<Rightarrow> AXISSTATUS \<Rightarrow> AXISSTATUS" where
  "SetSlewing forward highspeed st =
     st\<lparr>FullStop := False, SlewingTo := False, Slewing := True,
        SlewingForward := forward, HighSpeed := highspeed\<rparr>"

definition SetSlewingTo :: "bool \<Rightarrow> bool \<Rightarrow> AXISSTATUS \<Rightarrow> AXISSTATUS" where
  "SetSlewingTo forward highspeed st =
     st\<lparr>FullStop := False, Slewing := False, SlewingTo := True,
        SlewingForward := forward, HighSpeed := highspeed\<rparr>"

text \<open>
  Modelled from the spec: the serial transport of \<open>indicom.h\<close> (\<open>tty_write\<close>,
  \<open>tty_write_string\<close>, \<open>tty_read\<close>, \<open>tty_read_section\<close>, \<open>tcflush\<close>) is not part of the
  sources. Following the interface of the byte-transport collaborator (write gives
  success or a transport error; a read gives bytes and their count, a transport error
  or a timeout; flush), a call returns a status, and a read also the bytes it stored at
  the start of the caller's buffer. The mount's side is a script: one stream of
  outcomes for the writes and one for the reads, consumed call by call. Every call is
  appended to a trace, so that exchanges, attempts and delays can be counted. A command
  is recorded by the command character, axis and payload given to \<open>TalkWithAxis\<close>;
  the 16-byte frame and response buffers of the source are not modelled, and responses
  are taken to fit.
\<close>

datatype tty_status = TTY_OK | TTY_TIME_OUT | TTY_ERROR

datatype event =
    Flush
  | Write char AXISID string
  | WriteRaw string
  | ReadSection
  | ReadRaw
  | Sleep nat

record SkywatcherAPI =
  MCVersion :: ulong
  MountCode :: ulong
  IsDCMotor :: bool
  SilentSlewMode :: bool
  MicrostepsPerRevolution :: "AXISID \<Rightarrow> long"
  StepperClockFrequency :: "AXISID \<Rightarrow> long"
  HighSpeedRatio :: "AXISID \<Rightarrow> long"
  MicrostepsPerWormRevolution :: "AXISID \<Rightarrow> long"
  RadiansPerMicrostep :: "AXISID \<Rightarrow> real"
  MicrostepsPerRadian :: "AXISID \<Rightarrow> real"
  DegreesPerMicrostep :: "AXISID \<Rightarrow> real"
  MicrostepsPerDegree :: "AXISID \<Rightarrow> real"
  LowSpeedGotoMargin :: "AXISID \<Rightarrow> long"
  LastSlewToTarget :: "AXISID \<Rightarrow> long"
  CurrentEncoders :: "AXISID \<Rightarrow> long"
  PolarisPositionEncoders :: "AXISID \<Rightarrow> long"
  ZeroPositionEncoders :: "AXISID \<Rightarrow> long"
  AxesStatus :: "AXISID \<Rightarrow> AXISSTATUS"
  SlewingSpeed :: "AXISID \<Rightarrow> real"
  SupportAdvancedCommandSet :: bool
  tty_writes :: "tty_status stream"
  tty_reads :: "(tty_status \<times> string) stream"
  trace :: "event list"

text \<open>
  Modelled from the spec: the calls of the transport, \<open>tcflush\<close>, \<open>tty_write_string\<close>,
  \<open>tty_write\<close>, \<open>tty_read_section\<close> and \<open>tty_read\<close>, which are missing from the sources,
  and \<open>std::this_thread::sleep_for\<close>. A write or a read takes the next outcome of its
  script; every call adds its event to the trace.
\<close>

definition log_event :: "event \<Rightarrow> SkywatcherAPI \<Rightarrow> SkywatcherAPI" where
  "log_event e s = s\<lparr>trace := trace s @ [e]\<rparr>"

definition tcflush :: "SkywatcherAPI \<Rightarrow> SkywatcherAPI" where
  "tcflush s = log_event Flush s"

definition sleep_for :: "nat \<Rightarrow> SkywatcherAPI \<Rightarrow> SkywatcherAPI" where
  "sleep_for milliseconds s = log_event (Sleep milliseconds) s"

definition tty_write_string :: "event \<Rightarrow> SkywatcherAPI \<Rightarrow> tty_status \<times> SkywatcherAPI" where
  "tty_write_string e s =
     (shd (tty_writes s), log_event e (s\<lparr>tty_writes := stl (tty_writes s)\<rparr>))"

definition tty_read_section :: "SkywatcherAPI \<Rightarrow> (tty_status \<times> string) \<times> SkywatcherAPI" where
  "tty_read_section s =
     (shd (tty_reads s), log_event ReadSection (s\<lparr>tty_reads := stl (tty_reads s)\<rparr>))"

definition tty_write :: "event \<Rightarrow> SkywatcherAPI \<Rightarrow> tty_status \<times> SkywatcherAPI" where
  "tty_write e s = tty_write_string e s"

definition tty_read :: "SkywatcherAPI \<Rightarrow> (tty_status \<times> string) \<times> SkywatcherAPI" where
  "tty_read s =
     (shd (tty_reads s), log_event ReadRaw (s\<lparr>tty_reads := stl (tty_reads s)\<rparr>))"

text \<open>
  Constants of the class, as exact fractions. \<open>M_PI\<close> is the \<open>double\<close> of \<open><cmath>\<close>,
  \<open>0x1.921fb54442d18p+1\<close>. \<open>SIDEREALRATE\<close> is the double that the constant expression
  \<open>2 * M_PI / 86164.09065\<close> evaluates to, \<open>0x1.31da7f684343cp-14\<close>: the product is exact,
  the literal \<open>86164.09065\<close> is the double \<open>2960575611450635 / 2 ^ 35\<close>, and the quotient
  is rounded to the nearest double (lemma \<open>SIDEREALRATE_nearest\<close> below). The product
  \<open>128.0 * SIDEREALRATE\<close> is exact, so \<open>LOW_SPEED_MARGIN\<close> is \<open>0x1.31da7f684343cp-7\<close>.
  \<open>SIDEREALRATE_div_1000\<close> is the double that \<open>SIDEREALRATE / 1000.0\<close> evaluates to in
  \<open>Slew\<close>, \<open>0x1.3931a960866a4p-24\<close> (lemma \<open>SIDEREALRATE_div_1000_nearest\<close>).
\<close>

definition M_PI :: real where
  "M_PI = 884279719003555 / 281474976710656"

definition SIDEREALRATE :: real where
  "SIDEREALRATE = 1345157947526415 / 2 ^ 64"

definition SIDEREALRATE_div_1000 :: real where
  "SIDEREALRATE_div_1000 = 1377441738267049 / 2 ^ 74"

definition MAX_SPEED :: real where
  "MAX_SPEED = 500.0"

definition LOW_SPEED_MARGIN :: real where
  "LOW_SPEED_MARGIN = 128.0 * SIDEREALRATE"

definition SKYWATCHER_MAX_RETRTY :: nat where
  "SKYWATCHER_MAX_RETRTY = 3"

definition rRESOLUTION :: string where "rRESOLUTION = ''0002''"
definition rENCODER :: string where "rENCODER = ''0003''"
definition rWORM_RESOLUTION :: string where "rWORM_RESOLUTION = ''000E''"
definition wSET_SPEED :: string where "wSET_SPEED = ''02''"

definition MountType_114GT :: ulong where
  "MountType_114GT = 0x82"

text \<open>Conversions between \<open>double\<close> and \<open>long\<close>, and division of doubles.\<close>

definition truncate_real :: "real \<Rightarrow> int" where
  "truncate_real x = (if 0 \<le> x then \<lfloor>x\<rfloor> else \<lceil>x\<rceil>)"

definition double_to_long :: "real \<Rightarrow> long option" where
  "double_to_long x =
     (if - (2 ^ 63) \<le> truncate_real x \<and> truncate_real x < 2 ^ 63
      then Some (of_int (truncate_real x)) else None)"

definition long_to_double :: "long \<Rightarrow> real" where
  "long_to_double n = real_of_int (sint n)"

definition double_div :: "real \<Rightarrow> real \<Rightarrow> real option" where
  "double_div x y = (if y = 0 then None else Some (x / y))"

subsection \<open>Transport session\<close>

text \<open>
  The retry loop of \<open>TalkWithAxis\<close>. It leaves by \<open>return false\<close>, by \<open>break\<close> with the
  bytes read, or by its loop condition.
\<close>

datatype talk_exit = Returned_false | Got_response string | Retries_exhausted

function talk_retry_loop ::
  "nat \<Rightarrow> AXISID \<Rightarrow> char \<Rightarrow> string \<Rightarrow> SkywatcherAPI \<Rightarrow> talk_exit \<times> SkywatcherAPI" where
  "talk_retry_loop retries Axis Command cmdDataStr s =
     (if retries < SKYWATCHER_MAX_RETRTY then
        (case tty_write_string (Write Command Axis cmdDataStr) (tcflush s) of
           (errorCode, s1) \<Rightarrow>
             if errorCode \<noteq> TTY_OK then
               (if retries = SKYWATCHER_MAX_RETRTY - 1 then (Returned_false, s1)
                else talk_retry_loop (retries + 1) Axis Command cmdDataStr (sleep_for 100 s1))
             else
               (case tty_read_section s1 of
                  ((errorCode, response), s2) \<Rightarrow>
                    if errorCode \<noteq> TTY_OK \<or> length response < 2 then
                      (if retries = SKYWATCHER_MAX_RETRTY - 1 then (Returned_false, s2)
                       else talk_retry_loop (retries + 1) Axis Command cmdDataStr (sleep_for 100 s2))
                    else (Got_response response, s2)))
      else (Retries_exhausted, s))"
  by pat_completeness auto
termination
  by (relation "measure (\<lambda>(retries, Axis, Command, cmdDataStr, s). SKYWATCHER_MAX_RETRTY - retries)")
    auto

declare talk_retry_loop.simps [simp del]

text \<open>
  After the loop the carriage return is overwritten by a NUL and \<open>responseStr\<close> is the
  C string that starts after the leading \<open>=\<close> or \<open>!\<close>. The loop condition never ends the
  loop (lemma \<open>talk_retry_loop_not_exhausted\<close> below), so the third case is unreachable.
\<close>

definition TalkWithAxis ::
  "AXISID \<Rightarrow> char \<Rightarrow> string \<Rightarrow> string \<Rightarrow> SkywatcherAPI \<Rightarrow> (bool \<times> string) \<times> SkywatcherAPI" where
  "TalkWithAxis Axis Command cmdDataStr responseStr s =
     (case talk_retry_loop 0 Axis Command cmdDataStr s of
        (Returned_false, s1) \<Rightarrow> ((False, responseStr), s1)
      | (Retries_exhausted, s1) \<Rightarrow> ((False, responseStr), s1)
      | (Got_response bytes, s1) \<Rightarrow>
          let response = bytes[length bytes - 1 := CHR 0x00];
              responseStr = takeWhile (\<lambda>c. c \<noteq> CHR 0x00) (drop 1 response)
          in if response ! 0 = CHR ''!'' then ((False, responseStr), s1)
             else ((True, responseStr), s1))"

subsection \<open>Calibration engine and axis status tracker\<close>

text \<open>
  The three-argument \<open>stol\<close> that the advanced command set reads its hexadecimal
  responses with is not declared in the sources; it is a parameter of every operation
  that reaches it, applied to the response from its second character on.
\<close>

type_synonym stol_t = "string \<Rightarrow> nat \<Rightarrow> nat \<Rightarrow> long"

definition IsMerlinMount :: "SkywatcherAPI \<Rightarrow> bool" where
  "IsMerlinMount s \<longleftrightarrow> 0x80 \<le> MountCode s \<and> MountCode s < 0x90"

definition GetEncoder :: "stol_t \<Rightarrow> AXISID \<Rightarrow> SkywatcherAPI \<Rightarrow> bool \<times> SkywatcherAPI" where
  "GetEncoder stol Axis s =
     (if SupportAdvancedCommandSet s then
        (case TalkWithAxis Axis CHR ''X'' rENCODER [] s of
           ((ok, Response), s1) \<Rightarrow>
             if \<not> ok then (False, s1)
             else (True, s1\<lparr>CurrentEncoders :=
                     (CurrentEncoders s1)(Axis := stol (drop 1 Response) 8 16)\<rparr>))
      else
        (case TalkWithAxis Axis CHR ''j'' [] [] s of
           ((ok, Response), s1) \<Rightarrow>
             if \<not> ok then (False, s1)
             else
               let Microsteps = BCDstr2long Response in
               if 0 < sint Microsteps
               then (True, s1\<lparr>CurrentEncoders := (CurrentEncoders s1)(Axis := Microsteps)\<rparr>)
               else (True, s1)))"

definition GetHighSpeedRatio :: "AXISID \<Rightarrow> SkywatcherAPI \<Rightarrow> bool \<times> SkywatcherAPI" where
  "GetHighSpeedRatio Axis s =
     (case TalkWithAxis Axis CHR ''g'' [] [] s of
        ((ok, Response), s1) \<Rightarrow>
          if \<not> ok then (False, s1)
          else
            let highSpeedRatio = Highstr2long Response in
            if highSpeedRatio = 0 then (False, s1)
            else (True, s1\<lparr>HighSpeedRatio := (HighSpeedRatio s1)(Axis := highSpeedRatio)\<rparr>))"

definition GetMicrostepsPerRevolution ::
  "stol_t \<Rightarrow> AXISID \<Rightarrow> SkywatcherAPI \<Rightarrow> (bool \<times> SkywatcherAPI) option" where
  "GetMicrostepsPerRevolution stol Axis s =
     (case (if SupportAdvancedCommandSet s then
              (case TalkWithAxis Axis CHR ''X'' rRESOLUTION [] s of
                 ((ok, Response), s1) \<Rightarrow> (ok, stol (drop 1 Response) 8 16, s1))
            else
              (case TalkWithAxis Axis CHR ''a'' [] [] s of
                 ((ok, Response), s1) \<Rightarrow> (ok, BCDstr2long Response, s1)))
      of (ok, tmp0, s1) \<Rightarrow>
        if \<not> ok then Some (False, s1)
        else if tmp0 = 0 then Some (False, s1)
        else do {
          let tmp1 = (if MountCode s1 = MountType_114GT then 0x205318 else tmp0);
          tmpMicrostepsPerRevolution \<leftarrow>
            (if IsMerlinMount s1 then double_to_long (long_to_double tmp1 * 0.655)
             else Some tmp1);
          rpm \<leftarrow> double_div (2 * M_PI) (long_to_double tmpMicrostepsPerRevolution);
          dpm \<leftarrow> double_div 360.0 (long_to_double tmpMicrostepsPerRevolution);
          Some (True, s1\<lparr>
            MicrostepsPerRevolution :=
              (MicrostepsPerRevolution s1)(Axis := tmpMicrostepsPerRevolution),
            MicrostepsPerRadian :=
              (MicrostepsPerRadian s1)(Axis := long_to_double tmpMicrostepsPerRevolution / (2 * M_PI)),
            RadiansPerMicrostep := (RadiansPerMicrostep s1)(Axis := rpm),
            MicrostepsPerDegree :=
              (MicrostepsPerDegree s1)(Axis := long_to_double tmpMicrostepsPerRevolution / 360.0),
            DegreesPerMicrostep := (DegreesPerMicrostep s1)(Axis := dpm)\<rparr>)
        })"

definition uint32_of :: "ulong \<Rightarrow> long" where
  "uint32_of x = ucast (ucast x :: 32 word)"

definition GetMicrostepsPerWormRevolution ::
  "stol_t \<Rightarrow> AXISID \<Rightarrow> SkywatcherAPI \<Rightarrow> bool \<times> SkywatcherAPI" where
  "GetMicrostepsPerWormRevolution stol Axis s =
     (if SupportAdvancedCommandSet s then
        (case TalkWithAxis Axis CHR ''X'' rWORM_RESOLUTION [] s of
           ((ok, Response), s1) \<Rightarrow>
             if \<not> ok then (False, s1)
             else (True, s1\<lparr>MicrostepsPerWormRevolution :=
                     (MicrostepsPerWormRevolution s1)
                       (Axis := uint32_of (stol (drop 1 Response) 8 16))\<rparr>))
      else
        (case TalkWithAxis Axis CHR ''s'' [] [] s of
           ((ok, Response), s1) \<Rightarrow>
             if \<not> ok then (False, s1)
             else
               let v = uint32_of (BCDstr2long Response) in
               if v = 0 then (False, s1)
               else (True, s1\<lparr>MicrostepsPerWormRevolution :=
                       (MicrostepsPerWormRevolution s1)(Axis := v)\<rparr>)))"

definition GetMotorBoardVersion :: "AXISID \<Rightarrow> SkywatcherAPI \<Rightarrow> bool \<times> SkywatcherAPI" where
  "GetMotorBoardVersion Axis s =
     (case TalkWithAxis Axis CHR ''e'' [] [] s of
        ((ok, Response), s1) \<Rightarrow>
          if \<not> ok then (False, s1)
          else
            let tmpMCVersion = BCDstr2long Response in
            (True, s1\<lparr>MCVersion :=
               push_bit 16 (tmpMCVersion AND 0xFF) OR (tmpMCVersion AND 0xFF00)
                 OR drop_bit 16 (tmpMCVersion AND 0xFF0000)\<rparr>))"

definition GetStepperClockFrequency :: "AXISID \<Rightarrow> SkywatcherAPI \<Rightarrow> bool \<times> SkywatcherAPI" where
  "GetStepperClockFrequency Axis s =
     (case TalkWithAxis Axis CHR ''b'' [] [] s of
        ((ok, Response), s1) \<Rightarrow>
          if \<not> ok then (False, s1)
          else
            let v = uint32_of (BCDstr2long Response) in
            if v = 0 then (False, s1)
            else (True, s1\<lparr>StepperClockFrequency := (StepperClockFrequency s1)(Axis := v)\<rparr>))"

text \<open>
  \<open>std::string::operator[]\<close>: the character at a position below the size, the NUL at
  the size, nothing defined beyond it.
\<close>

definition string_at :: "string \<Rightarrow> nat \<Rightarrow> char option" where
  "string_at str pos =
     (if pos < length str then Some (str ! pos)
      else if pos = length str then Some (CHR 0x00)
      else None)"

definition update_status ::
  "AXISID \<Rightarrow> (AXISSTATUS \<Rightarrow> AXISSTATUS) \<Rightarrow> SkywatcherAPI \<Rightarrow> SkywatcherAPI" where
  "update_status Axis f s = s\<lparr>AxesStatus := (AxesStatus s)(Axis := f (AxesStatus s Axis))\<rparr>"

definition GetStatus :: "stol_t \<Rightarrow> AXISID \<Rightarrow> SkywatcherAPI \<Rightarrow> (bool \<times> SkywatcherAPI) option" where
  "GetStatus stol Axis s =
     (case TalkWithAxis Axis CHR ''f'' [] [] s of
        ((ok, Response), s1) \<Rightarrow>
          if \<not> ok then Some (False, s1)
          else do {
            r1 \<leftarrow> string_at Response 1;
            s2 \<leftarrow>
              (if char_int r1 AND 0x01 \<noteq> 0 then do {
                 r0 \<leftarrow> string_at Response 0;
                 Some (if char_int r0 AND 0x01 \<noteq> 0
                       then update_status Axis
                              (\<lambda>st. st\<lparr>FullStop := False, Slewing := True, SlewingTo := False\<rparr>) s1
                       else update_status Axis
                              (\<lambda>st. st\<lparr>FullStop := False, SlewingTo := True, Slewing := False\<rparr>) s1)
               }
               else
                 Some (update_status Axis
                         (\<lambda>st. st\<lparr>FullStop := True, Slewing := False, SlewingTo := False\<rparr>)
                         (if SlewingTo (AxesStatus s1 Axis) then snd (GetEncoder stol Axis s1)
                          else s1)));
            r0 \<leftarrow> string_at Response 0;
            let s3 = update_status Axis
                       (\<lambda>st. st\<lparr>SlewingForward := (char_int r0 AND 0x02 = 0)\<rparr>) s2;
            let s4 = update_status Axis
                       (\<lambda>st. st\<lparr>HighSpeed := (char_int r0 AND 0x04 \<noteq> 0)\<rparr>) s3;
            r2 \<leftarrow> string_at Response 2;
            let s5 = update_status Axis
                       (\<lambda>st. st\<lparr>NotInitialized := (char_int r2 AND 1 = 0)\<rparr>) s4;
            Some (True, s5)
          })"

definition InitializeMC :: "SkywatcherAPI \<Rightarrow> bool \<times> SkywatcherAPI" where
  "InitializeMC s =
     (case TalkWithAxis AXIS1 CHR ''F'' [] [] s of
        ((ok1, Response1), s1) \<Rightarrow>
          if \<not> ok1 then (False, s1)
          else
            (case TalkWithAxis AXIS2 CHR ''F'' [] Response1 s1 of
               ((ok2, Response2), s2) \<Rightarrow> if \<not> ok2 then (False, s2) else (True, s2)))"

text \<open>The loop of \<open>CheckIfDCMotor\<close> that empties the read buffer until a read times out.\<close>

partial_function (option) flush_read_buffer :: "SkywatcherAPI \<Rightarrow> (bool \<times> SkywatcherAPI) option" where
  "flush_read_buffer s =
     (case tty_read s of
        ((rc, input), s1) \<Rightarrow>
          if rc = TTY_TIME_OUT then Some (True, s1)
          else if rc \<noteq> TTY_OK then Some (False, s1)
          else flush_read_buffer s1)"

definition CheckIfDCMotor :: "SkywatcherAPI \<Rightarrow> (bool \<times> SkywatcherAPI) option" where
  "CheckIfDCMotor s =
     do {
       (flushed, s1) \<leftarrow> flush_read_buffer s;
       if \<not> flushed then Some (False, s1)
       else
         (case tty_write (WriteRaw '':'') s1 of
            (wrc, s2) \<Rightarrow>
              if wrc \<noteq> TTY_OK then Some (False, s2)
              else
                (case tty_read s2 of
                   ((rc, input), s3) \<Rightarrow>
                     if rc = TTY_OK \<and> length input = 1 \<and> input ! 0 = CHR '':''
                     then Some (True, s3\<lparr>IsDCMotor := True\<rparr>)
                     else if rc = TTY_TIME_OUT then Some (True, s3\<lparr>IsDCMotor := False\<rparr>)
                     else Some (False, s3)))
     }"

subsection \<open>Motion controller\<close>

definition RadiansToMicrosteps :: "AXISID \<Rightarrow> real \<Rightarrow> SkywatcherAPI \<Rightarrow> long option" where
  "RadiansToMicrosteps Axis AngleInRadians s =
     double_to_long (AngleInRadians * MicrostepsPerRadian s Axis)"

definition RadiansPerSecondToClocksTicksPerMicrostep ::
  "AXISID \<Rightarrow> real \<Rightarrow> SkywatcherAPI \<Rightarrow> long option" where
  "RadiansPerSecondToClocksTicksPerMicrostep Axis RadiansPerSecond s =
     do {
       let MicrostepsPerSecond = RadiansPerSecond * MicrostepsPerRadian s Axis;
       q \<leftarrow> double_div (long_to_double (StepperClockFrequency s Axis)) MicrostepsPerSecond;
       double_to_long q
     }"

definition SetMotionMode :: "AXISID \<Rightarrow> char \<Rightarrow> char \<Rightarrow> SkywatcherAPI \<Rightarrow> bool \<times> SkywatcherAPI" where
  "SetMotionMode Axis func Direction s =
     (case TalkWithAxis Axis CHR ''G'' ([] @ [func] @ [Direction]) [] s of
        ((ok, Response), s1) \<Rightarrow> (ok, s1))"

definition SetGotoTargetOffset :: "AXISID \<Rightarrow> long \<Rightarrow> SkywatcherAPI \<Rightarrow> bool \<times> SkywatcherAPI" where
  "SetGotoTargetOffset Axis OffsetInMicrosteps s =
     (case TalkWithAxis Axis CHR ''H'' (Long2BCDstr OffsetInMicrosteps) [] s of
        ((ok, Response), s1) \<Rightarrow> (ok, s1))"

definition SetClockTicksPerMicrostep :: "AXISID \<Rightarrow> long \<Rightarrow> SkywatcherAPI \<Rightarrow> bool \<times> SkywatcherAPI" where
  "SetClockTicksPerMicrostep Axis ClockTicksPerMicrostep s =
     (case TalkWithAxis Axis CHR ''I'' (Long2BCDstr ClockTicksPerMicrostep) [] s of
        ((ok, Response), s1) \<Rightarrow> (ok, s1))"

definition SetSlewToModeDeccelerationRampLength ::
  "AXISID \<Rightarrow> long \<Rightarrow> SkywatcherAPI \<Rightarrow> bool \<times> SkywatcherAPI" where
  "SetSlewToModeDeccelerationRampLength Axis Microsteps s =
     (case TalkWithAxis Axis CHR ''M'' (Long2BCDstr Microsteps) [] s of
        ((ok, Response), s1) \<Rightarrow> (ok, s1))"

definition StartMotion :: "AXISID \<Rightarrow> SkywatcherAPI \<Rightarrow> bool \<times> SkywatcherAPI" where
  "StartMotion Axis s =
     (case TalkWithAxis Axis CHR ''J'' [] [] s of ((ok, Response), s1) \<Rightarrow> (ok, s1))"

definition InstantStop :: "AXISID \<Rightarrow> SkywatcherAPI \<Rightarrow> bool \<times> SkywatcherAPI" where
  "InstantStop Axis s =
     (case TalkWithAxis Axis CHR ''L'' [] [] s of
        ((ok, Response), s1) \<Rightarrow>
          if \<not> ok then (False, s1) else (True, update_status Axis SetFullStop s1))"

text \<open>
  The polling loop of \<open>PrepareForSlewing\<close> and \<open>SlewTo\<close>: read the status until the axis
  reports a full stop, sleeping 100 ms between two reads. Nothing bounds it.
\<close>

partial_function (option) PollUntilFullStop :: "stol_t \<Rightarrow> AXISID \<Rightarrow> SkywatcherAPI \<Rightarrow> SkywatcherAPI option" where
  "PollUntilFullStop stol Axis s =
     (case GetStatus stol Axis s of
        None \<Rightarrow> None
      | Some (ok, s1) \<Rightarrow>
          if FullStop (AxesStatus s1 Axis) then Some s1
          else PollUntilFullStop stol Axis (sleep_for 100 s1))"

text \<open>
  \<open>Slew\<close>, \<open>SlowStop\<close> and \<open>PrepareForSlewing\<close> call each other: \<open>Slew\<close> stops through
  \<open>SlowStop\<close> in the legacy command set and \<open>SlowStop\<close> slews at rate 0 in the advanced
  one. In \<open>Slew\<close> the block of the legacy command set declares \<open>Forward\<close> and
  \<open>HighSpeed\<close> again; the two statements after the block read the variables declared
  at the top of the function. In the advanced command set the call of
  \<open>RadiansToMicrosteps\<close> is given the axis, which the source leaves out. A \<open>SlowStop\<close>
  of the advanced command set ends without a \<open>return\<close> statement: it gives no value.
  In \<open>PrepareForSlewing\<close> the first part yields \<open>Inl\<close> where the source returns because
  the motion mode needs no change, and \<open>Inr\<close> where it goes on to select the mode.
\<close>

function
  Slew :: "stol_t \<Rightarrow> AXISID \<Rightarrow> real \<Rightarrow> bool \<Rightarrow> SkywatcherAPI \<Rightarrow> SkywatcherAPI option" and
  SlowStop :: "stol_t \<Rightarrow> AXISID \<Rightarrow> SkywatcherAPI \<Rightarrow> (bool option \<times> SkywatcherAPI) option" and
  PrepareForSlewing :: "stol_t \<Rightarrow> AXISID \<Rightarrow> real \<Rightarrow> SkywatcherAPI \<Rightarrow> SkywatcherAPI option"
where
  "Slew stol Axis Speed0 IgnoreSilentMode s =
     (let Forward = False;
          HighSpeed = False;
          SpeedInRadiansPerSecond =
            (if Speed0 > MAX_SPEED then MAX_SPEED
             else if Speed0 < - MAX_SPEED then - MAX_SPEED
             else Speed0)
      in
        if SupportAdvancedCommandSet s then do {
          (Forward, s1) \<leftarrow> do {
            microsteps \<leftarrow> RadiansToMicrosteps Axis SpeedInRadiansPerSecond s;
            let Parameters =
                  wSET_SPEED @ setw_setfill 16 CHR ''0'' (hex_digits False (unat (microsteps * 1024)));
            let s1 = snd (TalkWithAxis Axis CHR ''X'' Parameters [] s);
            Some (if SpeedInRadiansPerSecond > 0 then True else Forward, s1)
          };
          Some ((update_status Axis (SetSlewing Forward HighSpeed) s1)
                  \<lparr>SlewingSpeed := (SlewingSpeed s1)(Axis := SpeedInRadiansPerSecond)\<rparr>)
        }
        else if \<bar>SpeedInRadiansPerSecond\<bar> \<le> SIDEREALRATE_div_1000 then do {
          (r, s1) \<leftarrow> SlowStop stol Axis s;
          Some s1
        }
        else do {
          s4 \<leftarrow> do {
            let InternalSpeed = SpeedInRadiansPerSecond;
            s1 \<leftarrow> PrepareForSlewing stol Axis InternalSpeed s;
            let Forward = (InternalSpeed > 0);
            let InternalSpeed = (if InternalSpeed > 0 then InternalSpeed else - InternalSpeed);
            let HighSpeed =
                  (InternalSpeed > LOW_SPEED_MARGIN \<and> (IgnoreSilentMode \<or> \<not> SilentSlewMode s1));
            InternalSpeed \<leftarrow>
              (if HighSpeed then double_div InternalSpeed (long_to_double (HighSpeedRatio s1 Axis))
               else Some InternalSpeed);
            SpeedInt \<leftarrow> RadiansPerSecondToClocksTicksPerMicrostep Axis InternalSpeed s1;
            let SpeedInt =
                  (if MCVersion s1 = 0x010600 \<or> MCVersion s1 = 0x0010601 then SpeedInt - 3
                   else SpeedInt);
            let SpeedInt = (if sint SpeedInt < 6 then 6 else SpeedInt);
            let s2 = snd (SetClockTicksPerMicrostep Axis SpeedInt s1);
            let s3 = snd (StartMotion Axis s2);
            Some s3
          };
          Some ((update_status Axis (SetSlewing Forward HighSpeed) s4)
                  \<lparr>SlewingSpeed := (SlewingSpeed s4)(Axis := SpeedInRadiansPerSecond)\<rparr>)
        })"
| "SlowStop stol Axis s =
     (if SupportAdvancedCommandSet s then do {
        s1 \<leftarrow> Slew stol Axis 0 True s;
        Some (None, s1)
      }
      else
        (case TalkWithAxis Axis CHR ''K'' [] [] s of
           ((ok, Response), s1) \<Rightarrow> Some (Some ok, s1)))"
| "PrepareForSlewing stol Axis Speed s =
     do {
       (ok, s1) \<leftarrow> GetStatus stol Axis s;
       if \<not> ok then Some s1
       else do {
         s3 \<leftarrow>
           (if \<not> FullStop (AxesStatus s1 Axis) then
              (if SlewingTo (AxesStatus s1 Axis)
                  \<or> HighSpeed (AxesStatus s1 Axis)
                  \<or> \<bar>Speed\<bar> \<ge> LOW_SPEED_MARGIN
                  \<or> (SlewingForward (AxesStatus s1 Axis) \<and> Speed < 0)
                  \<or> (\<not> SlewingForward (AxesStatus s1 Axis) \<and> Speed > 0)
               then do {
                 (r, s2) \<leftarrow> SlowStop stol Axis s1;
                 s3 \<leftarrow> PollUntilFullStop stol Axis s2;
                 Some (Inr s3)
               }
               else Some (Inl s1))
            else Some (Inr s1));
         (case s3 of
            Inl s' \<Rightarrow> Some s'
          | Inr s' \<Rightarrow>
              let Direction = (if Speed > 0.0 then CHR ''0'' else CHR ''1'');
                  Speed = (if Speed > 0.0 then Speed else - Speed)
              in if Speed > LOW_SPEED_MARGIN
                 then Some (snd (SetMotionMode Axis CHR ''3'' Direction s'))
                 else Some (snd (SetMotionMode Axis CHR ''1'' Direction s')))
       }
     }"
  by pat_completeness auto
termination
  apply (relation "measure (\<lambda>x. case x of
           Inl (stol, Axis, v, i, s) \<Rightarrow> (if SupportAdvancedCommandSet s then 0 else 3)
         | Inr (Inl (stol, Axis, s)) \<Rightarrow> (if SupportAdvancedCommandSet s then 1 else 0)
         | Inr (Inr (stol, Axis, v, s)) \<Rightarrow> 2)")
      apply auto
  done

declare Slew.simps [simp del] SlowStop.simps [simp del] PrepareForSlewing.simps [simp del]

definition SlewTo :: "stol_t \<Rightarrow> AXISID \<Rightarrow> long \<Rightarrow> bool \<Rightarrow> SkywatcherAPI \<Rightarrow> SkywatcherAPI option" where
  "SlewTo stol Axis Offset0 verbose s =
     (if 0 = Offset0 then Some s
      else
        let s0 = s\<lparr>LastSlewToTarget :=
                    (LastSlewToTarget s)(Axis := CurrentEncoders s Axis + Offset0)\<rparr>;
            Direction = (if sint Offset0 < 0 then CHR ''1'' else CHR ''0'');
            Forward = (\<not> sint Offset0 < 0);
            OffsetInMicrosteps = (if sint Offset0 < 0 then - Offset0 else Offset0);
            HighSpeed = (sint OffsetInMicrosteps > sint (LowSpeedGotoMargin s0 Axis)
                         \<and> \<not> SilentSlewMode s0)
        in do {
          (ok, s1) \<leftarrow> GetStatus stol Axis s0;
          if \<not> ok then Some s1
          else do {
            s3 \<leftarrow>
              (if \<not> FullStop (AxesStatus s1 Axis)
                  \<and> (SlewingTo (AxesStatus s1 Axis)
                       \<or> AXISSTATUS.HighSpeed (AxesStatus s1 Axis)
                       \<or> HighSpeed
                       \<or> (SlewingForward (AxesStatus s1 Axis) \<and> \<not> Forward)
                       \<or> (\<not> SlewingForward (AxesStatus s1 Axis) \<and> Forward))
               then do {
                 (r, s2) \<leftarrow> SlowStop stol Axis s1;
                 PollUntilFullStop stol Axis s2
               }
               else Some s1);
            let s4 = snd (if HighSpeed then SetMotionMode Axis CHR ''0'' Direction s3
                          else SetMotionMode Axis CHR ''2'' Direction s3);
            let s5 = snd (SetGotoTargetOffset Axis OffsetInMicrosteps s4);
            let s6 = snd (if HighSpeed
                          then SetSlewToModeDeccelerationRampLength Axis
                                 (if sint OffsetInMicrosteps > 3200 then 3200 else OffsetInMicrosteps) s5
                          else SetSlewToModeDeccelerationRampLength Axis
                                 (if sint OffsetInMicrosteps > 200 then 200 else OffsetInMicrosteps) s5);
            let s7 = snd (StartMotion Axis s6);
            Some (update_status Axis (SetSlewingTo Forward HighSpeed) s7)
          }
        })"

text \<open>The pattern \<^verbatim>\<open>if (!step()) return false;\<close> of \<open>InitMount\<close>.\<close>

definition or_return_false ::
  "(bool \<times> SkywatcherAPI) option \<Rightarrow> (SkywatcherAPI \<Rightarrow> (bool \<times> SkywatcherAPI) option)
     \<Rightarrow> (bool \<times> SkywatcherAPI) option" where
  "or_return_false step rest =
     (case step of None \<Rightarrow> None
      | Some (ok, s) \<Rightarrow> if \<not> ok then Some (False, s) else rest s)"

definition InitMount :: "stol_t \<Rightarrow> SkywatcherAPI \<Rightarrow> (bool \<times> SkywatcherAPI) option" where
  "InitMount stol s =
     or_return_false (CheckIfDCMotor s) (\<lambda>s.
     or_return_false (Some (GetMotorBoardVersion AXIS1 s)) (\<lambda>s.
     let s = s\<lparr>SupportAdvancedCommandSet := (MCVersion s \<ge> 0x032200)\<rparr>;
         s = s\<lparr>MountCode := MCVersion s AND 0xFF\<rparr>
     in
     or_return_false (GetMicrostepsPerRevolution stol AXIS1 s) (\<lambda>s.
     or_return_false (GetMicrostepsPerRevolution stol AXIS2 s) (\<lambda>s.
     or_return_false (Some (GetStepperClockFrequency AXIS1 s)) (\<lambda>s.
     or_return_false (Some (GetStepperClockFrequency AXIS2 s)) (\<lambda>s.
     or_return_false (Some (GetHighSpeedRatio AXIS1 s)) (\<lambda>s.
     or_return_false (Some (GetHighSpeedRatio AXIS2 s)) (\<lambda>s.
     let s = (if \<not> IsDCMotor s
              then snd (GetMicrostepsPerWormRevolution stol AXIS2
                          (snd (GetMicrostepsPerWormRevolution stol AXIS1 s)))
              else s)
     in do {
       (r1, s) \<leftarrow> GetStatus stol AXIS1 s;
       (r2, s) \<leftarrow> GetStatus stol AXIS2 s;
       or_return_false
         (if NotInitialized (AxesStatus s AXIS1) \<and> NotInitialized (AxesStatus s AXIS2) then
            or_return_false (Some (GetEncoder stol AXIS1 s)) (\<lambda>s.
            or_return_false (Some (GetEncoder stol AXIS2 s)) (\<lambda>s.
            let s = s\<lparr>PolarisPositionEncoders :=
                         (PolarisPositionEncoders s)(AXIS1 := CurrentEncoders s AXIS1)\<rparr>;
                s = s\<lparr>PolarisPositionEncoders :=
                         (PolarisPositionEncoders s)(AXIS2 := CurrentEncoders s AXIS2)\<rparr>;
                s = s\<lparr>ZeroPositionEncoders :=
                         (ZeroPositionEncoders s)(AXIS1 := PolarisPositionEncoders s AXIS1)\<rparr>;
                s = s\<lparr>ZeroPositionEncoders :=
                         (ZeroPositionEncoders s)(AXIS2 := PolarisPositionEncoders s AXIS2)\<rparr>
            in Some (InitializeMC s)))
          else
            let p = (if SupportAdvancedCommandSet s then 0 else 0x800000);
                s = s\<lparr>PolarisPositionEncoders :=
                         (PolarisPositionEncoders s)(AXIS1 := p)\<rparr>;
                s = s\<lparr>PolarisPositionEncoders :=
                         (PolarisPositionEncoders s)(AXIS2 := p)\<rparr>;
                s = s\<lparr>ZeroPositionEncoders :=
                         (ZeroPositionEncoders s)(AXIS1 := PolarisPositionEncoders s AXIS1)\<rparr>;
                s = s\<lparr>ZeroPositionEncoders :=
                         (ZeroPositionEncoders s)(AXIS2 := PolarisPositionEncoders s AXIS2)\<rparr>
            in Some (True, s))
         (\<lambda>s. do {
            m1 \<leftarrow> double_to_long (640 * SIDEREALRATE * MicrostepsPerRadian s AXIS1);
            let s = s\<lparr>LowSpeedGotoMargin := (LowSpeedGotoMargin s)(AXIS1 := m1)\<rparr>;
            m2 \<leftarrow> double_to_long (640 * SIDEREALRATE * MicrostepsPerRadian s AXIS2);
            let s = s\<lparr>LowSpeedGotoMargin := (LowSpeedGotoMargin s)(AXIS2 := m2)\<rparr>;
            Some (True, s)
          })
     }))))))))"

definition IsInMotion :: "AXISID \<Rightarrow> SkywatcherAPI \<Rightarrow> bool" where
  "IsInMotion Axis s \<longleftrightarrow> Slewing (AxesStatus s Axis) \<or> SlewingTo (AxesStatus s Axis)"

subsection \<open>Auxiliary definitions for the properties\<close>

text \<open>
  The state that the constructor and the default member initialisers of the header
  leave. The members they do not initialise are given 0 and \<open>False\<close>.
\<close>

definition new_SkywatcherAPI :: "tty_status stream \<Rightarrow> (tty_status \<times> string) stream \<Rightarrow> SkywatcherAPI" where
  "new_SkywatcherAPI writes reads =
     \<lparr>MCVersion = 0, MountCode = 0, IsDCMotor = False, SilentSlewMode = True,
      MicrostepsPerRevolution = (\<lambda>Axis. 0), StepperClockFrequency = (\<lambda>Axis. 0),
      HighSpeedRatio = (\<lambda>Axis. 0), MicrostepsPerWormRevolution = (\<lambda>Axis. 0),
      RadiansPerMicrostep = (\<lambda>Axis. 0), MicrostepsPerRadian = (\<lambda>Axis. 0),
      DegreesPerMicrostep = (\<lambda>Axis. 0), MicrostepsPerDegree = (\<lambda>Axis. 0),
      LowSpeedGotoMargin = (\<lambda>Axis. 0), LastSlewToTarget = (\<lambda>Axis. 0),
      CurrentEncoders = (\<lambda>Axis. 0), PolarisPositionEncoders = (\<lambda>Axis. 0),
      ZeroPositionEncoders = (\<lambda>Axis. 0),
      AxesStatus = (\<lambda>Axis. \<lparr>FullStop = False, Slewing = False, SlewingTo = False,
                             SlewingForward = False, HighSpeed = False, NotInitialized = True\<rparr>),
      SlewingSpeed = (\<lambda>Axis. 0), SupportAdvancedCommandSet = False,
      tty_writes = writes, tty_reads = reads, trace = []\<rparr>"

text \<open>The driver's own members, with the script and the trace of the transport blanked.\<close>

definition driver_state :: "SkywatcherAPI \<Rightarrow> SkywatcherAPI" where
  "driver_state s = s\<lparr>tty_writes := sconst TTY_OK, tty_reads := sconst (TTY_OK, []), trace := []\<rparr>"

text \<open>The last command that a trace shows written to the mount.\<close>

fun last_command :: "event list \<Rightarrow> (char \<times> AXISID \<times> string) option" where
  "last_command [] = None"
| "last_command (e # es) =
     (case last_command es of
        Some c \<Rightarrow> Some c
      | None \<Rightarrow> (case e of Write c a p \<Rightarrow> Some (c, a, p) | _ \<Rightarrow> None))"

text \<open>
  The polling loop with a bound on the number of status queries: \<open>None\<close> when the bound
  is used up before the axis reports a full stop.
\<close>

fun poll_fuel :: "nat \<Rightarrow> stol_t \<Rightarrow> AXISID \<Rightarrow> SkywatcherAPI \<Rightarrow> SkywatcherAPI option" where
  "poll_fuel 0 stol Axis s = None"
| "poll_fuel (Suc n) stol Axis s =
     (case GetStatus stol Axis s of
        None \<Rightarrow> None
      | Some (ok, s1) \<Rightarrow>
          if FullStop (AxesStatus s1 Axis) then Some s1
          else poll_fuel n stol Axis (sleep_for 100 s1))"

text \<open>The number of motion phases that an axis status claims.\<close>

definition phase_count :: "AXISSTATUS \<Rightarrow> nat" where
  "phase_count st = of_bool (FullStop st) + of_bool (Slewing st) + of_bool (SlewingTo st)"

text \<open>
  A stand-in for the \<open>stol\<close> parameter in the examples, none of which reaches it, and the
  answers of a mount in two example sessions. In the first the probe of
  \<open>CheckIfDCMotor\<close> is echoed (a DC motor), the firmware version is 02.04.00 (mount type
  0, legacy command set), both axes report 0x89B200 = 9024000 microsteps per
  revolution, a timer frequency of 0xFDA7 and a high-speed ratio of 16, and both are
  stopped and initialised. In the second the mount type is already known to be 0x82
  and the mount reports 9024000 microsteps per revolution.
\<close>

definition stol_unused :: stol_t where
  "stol_unused str pos base = 0"

definition legacy_session_reads :: "(tty_status \<times> string) stream" where
  "legacy_session_reads =
     (TTY_TIME_OUT, []) ## (TTY_OK, '':'')
     ## (TTY_OK, ''=020400'' @ [CHR 0x0D])
     ## (TTY_OK, ''=00B289'' @ [CHR 0x0D]) ## (TTY_OK, ''=00B289'' @ [CHR 0x0D])
     ## (TTY_OK, ''=A7FD00'' @ [CHR 0x0D]) ## (TTY_OK, ''=A7FD00'' @ [CHR 0x0D])
     ## (TTY_OK, ''=10'' @ [CHR 0x0D]) ## (TTY_OK, ''=10'' @ [CHR 0x0D])
     ## (TTY_OK, ''=101'' @ [CHR 0x0D]) ## (TTY_OK, ''=101'' @ [CHR 0x0D])
     ## sconst (TTY_OK, ''='' @ [CHR 0x0D])"

definition session_114GT :: SkywatcherAPI where
  "session_114GT =
     (new_SkywatcherAPI (sconst TTY_OK) (sconst (TTY_OK, ''=00B289'' @ [CHR 0x0D])))
       \<lparr>MountCode := 0x82\<rparr>"

text \<open>
  A third example session, in the legacy command set: axis 1 calibrated as in the first
  session, and a mount that answers every command with \<open>=101\<close>, which as a status
  means stopped, forward, low speed, initialised.
\<close>

definition session_stopped :: SkywatcherAPI where
  "session_stopped =
     (new_SkywatcherAPI (sconst TTY_OK) (sconst (TTY_OK, ''=101'' @ [CHR 0x0D])))
       \<lparr>MicrostepsPerRadian := (\<lambda>Axis. 9024000 / (2 * M_PI)),
        StepperClockFrequency := (\<lambda>Axis. 64935),
        HighSpeedRatio := (\<lambda>Axis. 16)\<rparr>"

text \<open>
  A fourth example session, in the legacy command set: the mount reports axis 1 as
  slewing forward at low speed (\<open>=111\<close>), acknowledges the stop command, reports the
  axis as still slewing, then as stopped (\<open>=101\<close>), and acknowledges every later command.
\<close>

definition session_moving :: SkywatcherAPI where
  "session_moving =
     new_SkywatcherAPI (sconst TTY_OK)
       ((TTY_OK, ''=111'' @ [CHR 0x0D]) ## (TTY_OK, ''='' @ [CHR 0x0D])
        ## (TTY_OK, ''=111'' @ [CHR 0x0D]) ## (TTY_OK, ''=101'' @ [CHR 0x0D])
        ## sconst (TTY_OK, ''='' @ [CHR 0x0D]))"

section \<open>Properties\<close>

subsection \<open>The constants are the doubles of the constant expressions\<close>

text \<open>
  Both constants have a 53-bit significand, and each lies within half a unit in the last
  place of the quotient it stands for.
\<close>

lemma SIDEREALRATE_nearest:
  "SIDEREALRATE = 5380631790105660 / 2 ^ 66"
  "\<bar>SIDEREALRATE - 2 * M_PI / (2960575611450635 / 2 ^ 35)\<bar> < 1 / 2 ^ 67"
  by (simp_all add: SIDEREALRATE_def M_PI_def abs_if)

lemma SIDEREALRATE_div_1000_nearest:
  "SIDEREALRATE_div_1000 = 5509766953068196 / 2 ^ 76"
  "\<bar>SIDEREALRATE_div_1000 - SIDEREALRATE / 1000\<bar> < 1 / 2 ^ 77"
  by (simp_all add: SIDEREALRATE_div_1000_def SIDEREALRATE_def abs_if)

lemma LOW_SPEED_MARGIN_value: "LOW_SPEED_MARGIN = 5380631790105660 / 2 ^ 59"
  by (simp add: LOW_SPEED_MARGIN_def SIDEREALRATE_def)


subsection \<open>Wire codec: encoding and decoding agree\<close>

lemma nibbles_ident: "push_bit 4 (drop_bit 4 b) OR take_bit 4 b = (b :: 64 word)"
  by (rule bit_eqI) (auto simp: bit_simps)

lemma push_drop_8: "push_bit 8 (drop_bit 8 (N AND 0xff00)) = (N AND 0xff00 :: 64 word)"
proof -
  have m: "(0xff00 :: 64 word) = push_bit 8 (mask 8)"
    by (simp add: mask_eq_exp_minus_1 push_bit_eq_mult)
  show ?thesis unfolding m by (rule bit_eqI) (auto simp: bit_simps)
qed

lemma push_drop_16: "push_bit 16 (drop_bit 16 (N AND 0xff0000)) = (N AND 0xff0000 :: 64 word)"
proof -
  have m: "(0xff0000 :: 64 word) = push_bit 16 (mask 8)"
    by (simp add: mask_eq_exp_minus_1 push_bit_eq_mult)
  show ?thesis unfolding m by (rule bit_eqI) (auto simp: bit_simps)
qed

lemma reassemble:
  fixes N :: "64 word"
  defines "b0 \<equiv> N AND 0xff"
    and "b1 \<equiv> drop_bit 8 (N AND 0xff00)"
    and "b2 \<equiv> drop_bit 16 (N AND 0xff0000)"
  shows "push_bit 4 (push_bit 4 (push_bit 4 (push_bit 4
           (push_bit 4 (drop_bit 4 b2) OR take_bit 4 b2)
           OR drop_bit 4 b1) OR take_bit 4 b1) OR drop_bit 4 b0) OR take_bit 4 b0
         = N AND 0xFFFFFF"
proof -
  have "push_bit 4 (push_bit 4 (push_bit 4 (push_bit 4
          (push_bit 4 (drop_bit 4 b2) OR take_bit 4 b2)
          OR drop_bit 4 b1) OR take_bit 4 b1) OR drop_bit 4 b0) OR take_bit 4 b0
        = push_bit 4 (push_bit 4 (push_bit 4 (push_bit 4 b2 OR drop_bit 4 b1) OR take_bit 4 b1)
            OR drop_bit 4 b0) OR take_bit 4 b0"
    by (simp only: nibbles_ident)
  also have "\<dots> = push_bit 16 b2
                  OR (push_bit 8 (push_bit 4 (drop_bit 4 b1) OR take_bit 4 b1)
                  OR (push_bit 4 (drop_bit 4 b0) OR take_bit 4 b0))"
    by (simp only: push_bit_or push_bit_push_bit or.assoc) simp
  also have "\<dots> = push_bit 16 b2 OR (push_bit 8 b1 OR b0)"
    by (simp only: nibbles_ident)
  also have "\<dots> = (N AND 0xff0000) OR ((N AND 0xff00) OR (N AND 0xff))"
    by (simp only: b0_def b1_def b2_def push_drop_8 push_drop_16)
  also have "\<dots> = N AND (0xff0000 OR (0xff00 OR 0xff))"
    by (simp only: bit.conj_disj_distrib)
  also have "\<dots> = N AND 0xFFFFFF" by simp
  finally show ?thesis .
qed

lemma byte0_less: "unat (N AND 0xff :: 64 word) < 256"
proof -
  have "N AND 0xff \<le> 0xff" by (rule word_and_le1)
  then have "unat (N AND 0xff) \<le> unat (0xff :: 64 word)" by (simp only: word_le_nat_alt)
  then show ?thesis by simp
qed

lemma byte1_less: "unat (drop_bit 8 (N AND 0xff00 :: 64 word)) < 256"
proof -
  have "N AND 0xff00 \<le> 0xff00" by (rule word_and_le1)
  then have "unat (N AND 0xff00) \<le> unat (0xff00 :: 64 word)" by (simp only: word_le_nat_alt)
  then have "unat (N AND 0xff00) div 2 ^ 8 \<le> 0xff00 div 2 ^ 8" by (intro div_le_mono) simp
  then show ?thesis by (simp add: drop_bit_eq_div unat_div)
qed

lemma byte2_less: "unat (drop_bit 16 (N AND 0xff0000 :: 64 word)) < 256"
proof -
  have "N AND 0xff0000 \<le> 0xff0000" by (rule word_and_le1)
  then have "unat (N AND 0xff0000) \<le> unat (0xff0000 :: 64 word)" by (simp only: word_le_nat_alt)
  then have "unat (N AND 0xff0000) div 2 ^ 16 \<le> 0xff0000 div 2 ^ 16" by (intro div_le_mono) simp
  then show ?thesis by (simp add: drop_bit_eq_div unat_div)
qed

lemma nib_hi: "of_nat (unat (x::64 word) div 16) = drop_bit 4 x"
proof -
  have "unat x div 16 = unat (x div 16)"
    by (simp add: unat_div)
  then show ?thesis by (simp add: drop_bit_eq_div)
qed

lemma nib_lo: "of_nat (unat (x::64 word) mod 16) = take_bit 4 x"
proof -
  have "unat x mod 16 = unat (x mod 16)"
    by (simp add: unat_mod)
  then show ?thesis by (simp add: take_bit_eq_mod)
qed

lemma HEX_hex_digit: "d < 16 \<Longrightarrow> HEX (hex_digit True d) = int d"
proof -
  assume "d < 16"
  then have "d \<in> {0,1,2,3,4,5,6,7,8,9,10,11,12,13,14,15}" by auto arith
  then show ?thesis
    by (auto simp: HEX_def hex_digit_def char_int_def)
qed

lemma hex2: "v < 256 \<Longrightarrow> setw_setfill 2 CHR ''0'' (hex_digits True v) = [hex_digit True (v div 16), hex_digit True (v mod 16)]"
proof (cases "v < 16")
  case True
  then show ?thesis by (simp add: hex_digits.simps [of _ v] setw_setfill_def hex_digit_def)
next
  case False
  assume "v < 256"
  then have "v div 16 < 16" by simp
  then have "hex_digits True (v div 16) = [hex_digit True (v div 16)]"
    by (simp add: hex_digits.simps [of _ "v div 16"])
  with False show ?thesis by (simp add: hex_digits.simps [of _ v] setw_setfill_def)
qed

lemma HEX_hi: "v < 256 \<Longrightarrow> HEX (hex_digit True (v div 16)) = int (v div 16)"
  by (rule HEX_hex_digit) simp

lemma HEX_lo: "HEX (hex_digit True (v mod 16)) = int (v mod 16)"
  by (rule HEX_hex_digit) simp

lemma Long2BCDstr_chars:
  "Long2BCDstr N =
     [hex_digit True (unat (N AND 0xff) div 16), hex_digit True (unat (N AND 0xff) mod 16),
      hex_digit True (unat (drop_bit 8 (N AND 0xff00)) div 16), hex_digit True (unat (drop_bit 8 (N AND 0xff00)) mod 16),
      hex_digit True (unat (drop_bit 16 (N AND 0xff0000)) div 16), hex_digit True (unat (drop_bit 16 (N AND 0xff0000)) mod 16)]"
  by (simp add: Long2BCDstr_def hex2 byte0_less byte1_less byte2_less)

lemma BCDstr2long_hex_bytes:
  assumes "a < 256" "b < 256" "c < 256"
  shows "BCDstr2long [hex_digit True (a div 16), hex_digit True (a mod 16),
                      hex_digit True (b div 16), hex_digit True (b mod 16),
                      hex_digit True (c div 16), hex_digit True (c mod 16)] =
         push_bit 4 (push_bit 4 (push_bit 4 (push_bit 4 (push_bit 4 (of_nat (c div 16)) OR of_nat (c mod 16))
           OR of_nat (b div 16)) OR of_nat (b mod 16)) OR of_nat (a div 16)) OR of_nat (a mod 16)"
  using assms by (simp add: BCDstr2long_def Let_def HEX_hi HEX_lo del: of_nat_div of_nat_mod)

lemma BCDstr2long_Long2BCDstr: "BCDstr2long (Long2BCDstr N) = N AND 0xFFFFFF"
  unfolding Long2BCDstr_chars
  by (simp only: BCDstr2long_hex_bytes [OF byte0_less byte1_less byte2_less]
        nib_hi nib_lo reassemble)

lemma below_24_bits: "unat (N :: 64 word) < 2 ^ 24 \<Longrightarrow> N AND 0xFFFFFF = N"
proof -
  assume "unat N < 2 ^ 24"
  then have "N < 2 ^ 24" by (simp add: word_less_nat_alt)
  then have "N AND mask 24 = N" by (rule less_mask_eq)
  then show ?thesis by (simp add: mask_eq_exp_minus_1)
qed

text \<open>
  C1 (as stated, refuted). The claim expects \<open>BCDstr2long (Long2BCDstr N)\<close> to differ from
  \<open>N\<close> unless the caller reverses the byte pairs. At \<open>N = 0x123456\<close> the encoder writes
  the low byte first, \<open>563412\<close>, the decoder gives \<open>0x123456\<close> back from exactly this string,
  and from the string with the byte pairs reversed it gives another number.
\<close>

theorem BCD_roundtrip_counterexample:
  "Long2BCDstr 0x123456 = ''563412''
   \<and> BCDstr2long (Long2BCDstr 0x123456) = 0x123456
   \<and> BCDstr2long ''123456'' \<noteq> 0x123456"
  by (simp add: Long2BCDstr_def hex_digits.simps setw_setfill_def hex_digit_def
        BCDstr2long_def HEX_def char_int_def)

text \<open>
  C1 (amended). For every 24-bit integer \<open>N\<close>, decoding the encoding of \<open>N\<close> gives \<open>N\<close>:
  \<open>BCDstr2long\<close> is the inverse of \<open>Long2BCDstr\<close>, both put the low byte first.
\<close>

theorem BCD_roundtrip:
  "unat N < 2 ^ 24 \<Longrightarrow> BCDstr2long (Long2BCDstr N) = N"
  by (simp only: BCDstr2long_Long2BCDstr below_24_bits)

theorem BCD_roundtrip_witness:
  "unat (0xABCDEF :: long) < 2 ^ 24 \<and> BCDstr2long (Long2BCDstr 0xABCDEF) = 0xABCDEF"
  using BCD_roundtrip [of "0xABCDEF"] by simp

subsection \<open>Wire codec: what the decoders do with malformed input\<close>

text \<open>
  C5 (as stated, refuted). The decoders return a number and nothing else. A string of
  the wrong length is decoded to the number that a well-formed string of zeros is
  decoded to, and a string with the letter \<open>G\<close> to the number that a well-formed string
  is decoded to.
\<close>

theorem decode_malformed_counterexample:
  "length ''12345'' \<noteq> 6 \<and> BCDstr2long ''12345'' = BCDstr2long ''000000''
   \<and> length ''1'' < 2 \<and> Highstr2long ''1'' = Highstr2long ''00''
   \<and> BCDstr2long ''0G0000'' = BCDstr2long ''100000''
   \<and> Highstr2long ''0G'' = Highstr2long ''10''"
  by (simp add: BCDstr2long_def Highstr2long_def HEX_def char_int_def)

text \<open>
  C5 (amended). A string whose length is not 6 makes \<open>BCDstr2long\<close> return 0, and a string
  shorter than 2 makes \<open>Highstr2long\<close> return 0, which are the numbers that the
  well-formed strings \<open>000000\<close> and \<open>00\<close> decode to. No hexadecimal digit is validated.
\<close>

theorem decode_wrong_length:
  "(length String \<noteq> 6 \<longrightarrow>
      BCDstr2long String = 0 \<and> BCDstr2long String = BCDstr2long ''000000'')
   \<and> (length String < 2 \<longrightarrow>
      Highstr2long String = 0 \<and> Highstr2long String = Highstr2long ''00'')"
  by (simp add: BCDstr2long_def Highstr2long_def HEX_def char_int_def)

theorem decode_wrong_length_witness:
  "length ''1'' \<noteq> 6 \<and> length ''1'' < 2
   \<and> BCDstr2long ''1'' = 0 \<and> BCDstr2long ''1'' = BCDstr2long ''000000''
   \<and> Highstr2long ''1'' = 0 \<and> Highstr2long ''1'' = Highstr2long ''00''"
  using decode_wrong_length [of "''1''"] by auto

subsection \<open>Transport session\<close>

lemmas transport_defs = tcflush_def sleep_for_def tty_write_string_def tty_write_def
  tty_read_section_def tty_read_def log_event_def

lemmas talk_retry_loop_unroll =
  talk_retry_loop.simps [of 0] talk_retry_loop.simps [of "Suc 0"]
  talk_retry_loop.simps [of "Suc (Suc 0)"] SKYWATCHER_MAX_RETRTY_def

text \<open>An exchange whose first write and first read succeed.\<close>

lemma TalkWithAxis_first_try:
  assumes "shd (tty_writes s) = TTY_OK" and "shd (tty_reads s) = (TTY_OK, bytes)"
    and "2 \<le> length bytes"
  shows "TalkWithAxis Axis Command cmdDataStr responseStr s =
           ((bytes ! 0 \<noteq> CHR ''!'',
             takeWhile (\<lambda>c. c \<noteq> CHR 0x00) (drop 1 (bytes[length bytes - 1 := CHR 0x00]))),
            s\<lparr>tty_writes := stl (tty_writes s), tty_reads := stl (tty_reads s),
              trace := trace s @ [Flush, Write Command Axis cmdDataStr, ReadSection]\<rparr>)"
  using assms
  by (simp add: TalkWithAxis_def talk_retry_loop.simps [of 0] SKYWATCHER_MAX_RETRTY_def
      transport_defs Let_def)

text \<open>The retry loop is never left by its loop condition.\<close>

lemma talk_retry_loop_not_exhausted:
  "fst (talk_retry_loop 0 Axis Command cmdDataStr s) \<noteq> Retries_exhausted"
  by (simp add: talk_retry_loop_unroll transport_defs split: prod.splits)

lemma TalkWithAxis_attempts:
  "\<exists>evs. trace (snd (TalkWithAxis Axis Command cmdDataStr responseStr s)) = trace s @ evs
      \<and> 1 \<le> count_list evs Flush \<and> count_list evs Flush \<le> 3"
  by (simp add: TalkWithAxis_def talk_retry_loop_unroll transport_defs Let_def split: prod.splits)

lemma short_reads:
  assumes "\<forall>n. length (snd (tty_reads s !! n)) < 2"
  shows "length (snd (shd (tty_reads s))) < 2"
    and "length (snd (shd (stl (tty_reads s)))) < 2"
    and "length (snd (shd (stl (stl (tty_reads s))))) < 2"
  using assms [rule_format, of 0] assms [rule_format, of 1] assms [rule_format, of 2]
  by (simp_all add: numeral_2_eq_2)

text \<open>
  C7. An exchange makes at least one and at most three attempts, one flush each. When
  the first two writes fail and the third write and the read that follows succeed with
  an answer of two bytes or more that does not start with \<open>!\<close>, the exchange succeeds
  after exactly three attempts, with a delay of 100 ms after the first and the second.
  When every read gives fewer than two bytes, the exchange fails after exactly three
  attempts: each starts with a flush, and a delay of 100 ms follows the first and
  the second, not the third.
\<close>

theorem TalkWithAxis_retries:
  "(\<exists>evs. trace (snd (TalkWithAxis Axis Command cmdDataStr responseStr s)) = trace s @ evs
       \<and> 1 \<le> count_list evs Flush \<and> count_list evs Flush \<le> 3)
   \<and> (shd (tty_writes s) \<noteq> TTY_OK \<and> shd (stl (tty_writes s)) \<noteq> TTY_OK
        \<and> shd (stl (stl (tty_writes s))) = TTY_OK
        \<and> shd (tty_reads s) = (TTY_OK, bytes) \<and> 2 \<le> length bytes \<and> bytes ! 0 \<noteq> CHR ''!''
      \<longrightarrow> fst (fst (TalkWithAxis Axis Command cmdDataStr responseStr s))
        \<and> trace (snd (TalkWithAxis Axis Command cmdDataStr responseStr s)) =
            trace s @ [Flush, Write Command Axis cmdDataStr, Sleep 100,
                       Flush, Write Command Axis cmdDataStr, Sleep 100,
                       Flush, Write Command Axis cmdDataStr, ReadSection])
   \<and> ((\<forall>n. length (snd (tty_reads s !! n)) < 2)
      \<longrightarrow> \<not> fst (fst (TalkWithAxis Axis Command cmdDataStr responseStr s))
        \<and> trace (snd (TalkWithAxis Axis Command cmdDataStr responseStr s)) =
            trace s
            @ Flush # Write Command Axis cmdDataStr
                # (if tty_writes s !! 0 = TTY_OK then [ReadSection] else [])
            @ [Sleep 100]
            @ Flush # Write Command Axis cmdDataStr
                # (if tty_writes s !! 1 = TTY_OK then [ReadSection] else [])
            @ [Sleep 100]
            @ Flush # Write Command Axis cmdDataStr
                # (if tty_writes s !! 2 = TTY_OK then [ReadSection] else []))"
proof (intro conjI impI)
  show "\<exists>evs. trace (snd (TalkWithAxis Axis Command cmdDataStr responseStr s)) = trace s @ evs
       \<and> 1 \<le> count_list evs Flush \<and> count_list evs Flush \<le> 3"
    by (rule TalkWithAxis_attempts)
next
  assume a: "shd (tty_writes s) \<noteq> TTY_OK \<and> shd (stl (tty_writes s)) \<noteq> TTY_OK
        \<and> shd (stl (stl (tty_writes s))) = TTY_OK
        \<and> shd (tty_reads s) = (TTY_OK, bytes) \<and> 2 \<le> length bytes \<and> bytes ! 0 \<noteq> CHR ''!''"
  then show "fst (fst (TalkWithAxis Axis Command cmdDataStr responseStr s))"
    by (simp add: TalkWithAxis_def talk_retry_loop_unroll transport_defs Let_def)
  from a show "trace (snd (TalkWithAxis Axis Command cmdDataStr responseStr s)) =
            trace s @ [Flush, Write Command Axis cmdDataStr, Sleep 100,
                       Flush, Write Command Axis cmdDataStr, Sleep 100,
                       Flush, Write Command Axis cmdDataStr, ReadSection]"
    by (simp add: TalkWithAxis_def talk_retry_loop_unroll transport_defs Let_def)
next
  assume a: "\<forall>n. length (snd (tty_reads s !! n)) < 2"
  note sr = short_reads [OF a]
  from sr show "\<not> fst (fst (TalkWithAxis Axis Command cmdDataStr responseStr s))"
    by (auto simp add: TalkWithAxis_def talk_retry_loop_unroll transport_defs Let_def split: prod.splits)
  from sr show "trace (snd (TalkWithAxis Axis Command cmdDataStr responseStr s)) =
            trace s
            @ Flush # Write Command Axis cmdDataStr
                # (if tty_writes s !! 0 = TTY_OK then [ReadSection] else [])
            @ [Sleep 100]
            @ Flush # Write Command Axis cmdDataStr
                # (if tty_writes s !! 1 = TTY_OK then [ReadSection] else [])
            @ [Sleep 100]
            @ Flush # Write Command Axis cmdDataStr
                # (if tty_writes s !! 2 = TTY_OK then [ReadSection] else [])"
    by (auto simp add: TalkWithAxis_def talk_retry_loop_unroll transport_defs Let_def numeral_2_eq_2 split: prod.splits)
qed

theorem TalkWithAxis_retries_witness:
  "fst (fst (TalkWithAxis AXIS1 CHR ''J'' [] []
       (new_SkywatcherAPI (TTY_ERROR ## TTY_ERROR ## sconst TTY_OK)
                          (sconst (TTY_OK, ''='' @ [CHR 0x0D])))))
   \<and> trace (snd (TalkWithAxis AXIS1 CHR ''J'' [] []
       (new_SkywatcherAPI (TTY_ERROR ## TTY_ERROR ## sconst TTY_OK)
                          (sconst (TTY_OK, ''='' @ [CHR 0x0D]))))) =
       [Flush, Write CHR ''J'' AXIS1 [], Sleep 100,
        Flush, Write CHR ''J'' AXIS1 [], Sleep 100,
        Flush, Write CHR ''J'' AXIS1 [], ReadSection]
   \<and> \<not> fst (fst (TalkWithAxis AXIS1 CHR ''J'' [] []
       (new_SkywatcherAPI (sconst TTY_OK) (sconst (TTY_OK, ''='')))))
   \<and> trace (snd (TalkWithAxis AXIS1 CHR ''J'' [] []
       (new_SkywatcherAPI (sconst TTY_OK) (sconst (TTY_OK, ''=''))))) =
       [Flush, Write CHR ''J'' AXIS1 [], ReadSection, Sleep 100,
        Flush, Write CHR ''J'' AXIS1 [], ReadSection, Sleep 100,
        Flush, Write CHR ''J'' AXIS1 [], ReadSection]"
proof -
  let ?a = "new_SkywatcherAPI (TTY_ERROR ## TTY_ERROR ## sconst TTY_OK)
              (sconst (TTY_OK, ''='' @ [CHR 0x0D]))"
  let ?b = "new_SkywatcherAPI (sconst TTY_OK) (sconst (TTY_OK, ''=''))"
  have a: "shd (tty_writes ?a) \<noteq> TTY_OK \<and> shd (stl (tty_writes ?a)) \<noteq> TTY_OK
        \<and> shd (stl (stl (tty_writes ?a))) = TTY_OK
        \<and> shd (tty_reads ?a) = (TTY_OK, ''='' @ [CHR 0x0D]) \<and> 2 \<le> length (''='' @ [CHR 0x0D])
        \<and> (''='' @ [CHR 0x0D]) ! 0 \<noteq> CHR ''!''"
    by (simp add: new_SkywatcherAPI_def)
  have b: "\<forall>n. length (snd (tty_reads ?b !! n)) < 2"
    by (simp add: new_SkywatcherAPI_def)
  have ta: "trace ?a = []" and tb: "trace ?b = []" and wb: "tty_writes ?b = sconst TTY_OK"
    by (simp_all add: new_SkywatcherAPI_def)
  from TalkWithAxis_retries [of AXIS1 "CHR ''J''" "[]" "[]" ?a "''='' @ [CHR 0x0D]",
      THEN conjunct2, THEN conjunct1, THEN mp, OF a]
    TalkWithAxis_retries [of AXIS1 "CHR ''J''" "[]" "[]" ?b,
      THEN conjunct2, THEN conjunct2, THEN mp, OF b]
  show ?thesis
    by (simp add: new_SkywatcherAPI_def)
qed

text \<open>An exchange changes the script and the trace of the transport, nothing else.\<close>

lemma driver_state_simps [simp]:
  "driver_state (log_event e s) = driver_state s"
  "driver_state (s\<lparr>tty_writes := w\<rparr>) = driver_state s"
  "driver_state (s\<lparr>tty_reads := r\<rparr>) = driver_state s"
  "driver_state (s\<lparr>trace := t\<rparr>) = driver_state s"
  by (simp_all add: driver_state_def log_event_def)

lemma talk_retry_loop_frame:
  "driver_state (snd (talk_retry_loop retries Axis Command cmdDataStr s)) = driver_state s"
proof (induction retries Axis Command cmdDataStr s rule: talk_retry_loop.induct)
  case (1 retries Axis Command cmdDataStr s)
  show ?case
    apply (subst talk_retry_loop.simps)
    using 1
    apply (auto simp: tcflush_def sleep_for_def tty_write_string_def tty_read_section_def split: prod.splits)
    done
qed

lemma TalkWithAxis_frame:
  "driver_state (snd (TalkWithAxis Axis Command cmdDataStr responseStr s)) = driver_state s"
  using talk_retry_loop_frame [of 0 Axis Command cmdDataStr s]
  by (auto simp: TalkWithAxis_def Let_def split: prod.splits talk_exit.splits)

lemma driver_state_fields:
  assumes "driver_state s1 = driver_state s"
  shows "CurrentEncoders s1 = CurrentEncoders s"
    and "AxesStatus s1 = AxesStatus s"
    and "MountCode s1 = MountCode s"
    and "SupportAdvancedCommandSet s1 = SupportAdvancedCommandSet s"
    and "MicrostepsPerRadian s1 = MicrostepsPerRadian s"
proof -
  have "CurrentEncoders (driver_state s1) = CurrentEncoders (driver_state s)" by (simp only: assms)
  then show "CurrentEncoders s1 = CurrentEncoders s" by (simp add: driver_state_def)
  have "AxesStatus (driver_state s1) = AxesStatus (driver_state s)" by (simp only: assms)
  then show "AxesStatus s1 = AxesStatus s" by (simp add: driver_state_def)
  have "MountCode (driver_state s1) = MountCode (driver_state s)" by (simp only: assms)
  then show "MountCode s1 = MountCode s" by (simp add: driver_state_def)
  have "SupportAdvancedCommandSet (driver_state s1) = SupportAdvancedCommandSet (driver_state s)" by (simp only: assms)
  then show "SupportAdvancedCommandSet s1 = SupportAdvancedCommandSet s" by (simp add: driver_state_def)
  have "MicrostepsPerRadian (driver_state s1) = MicrostepsPerRadian (driver_state s)" by (simp only: assms)
  then show "MicrostepsPerRadian s1 = MicrostepsPerRadian s" by (simp add: driver_state_def)
qed

lemma TalkWithAxis_fields:
  assumes "TalkWithAxis Axis Command cmdDataStr responseStr s = (r, s1)"
  shows "CurrentEncoders s1 = CurrentEncoders s"
    and "AxesStatus s1 = AxesStatus s"
    and "MountCode s1 = MountCode s"
    and "SupportAdvancedCommandSet s1 = SupportAdvancedCommandSet s"
    and "MicrostepsPerRadian s1 = MicrostepsPerRadian s"
proof -
  have "driver_state s1 = driver_state s"
    using TalkWithAxis_frame [of Axis Command cmdDataStr responseStr s] assms by simp
  then show "CurrentEncoders s1 = CurrentEncoders s"
    and "AxesStatus s1 = AxesStatus s"
    and "MountCode s1 = MountCode s"
    and "SupportAdvancedCommandSet s1 = SupportAdvancedCommandSet s"
    and "MicrostepsPerRadian s1 = MicrostepsPerRadian s"
    by (rule driver_state_fields)+
qed

subsection \<open>Encoder query\<close>

text \<open>
  C10. In the legacy command set, after a successful exchange \<open>GetEncoder\<close> returns true;
  it stores the decoded value for the axis when the value, read as a \<open>long\<close>, is
  strictly positive, and leaves \<open>CurrentEncoders\<close> as it was otherwise.
\<close>

theorem GetEncoder_legacy_nonpositive:
  assumes "\<not> SupportAdvancedCommandSet s"
    and "TalkWithAxis Axis CHR ''j'' [] [] s = ((True, Response), s1)"
  shows "fst (GetEncoder stol Axis s)
         \<and> CurrentEncoders (snd (GetEncoder stol Axis s)) =
             (if 0 < sint (BCDstr2long Response)
              then (CurrentEncoders s)(Axis := BCDstr2long Response)
              else CurrentEncoders s)"
  using assms TalkWithAxis_fields(1) [OF assms(2)] by (simp add: GetEncoder_def Let_def)

theorem GetEncoder_legacy_nonpositive_witness:
  "\<not> SupportAdvancedCommandSet
       ((new_SkywatcherAPI (sconst TTY_OK) (sconst (TTY_OK, ''=000000'' @ [CHR 0x0D])))
          \<lparr>CurrentEncoders := (\<lambda>Axis. 0x800000)\<rparr>)
   \<and> fst (fst (TalkWithAxis AXIS1 CHR ''j'' [] []
       ((new_SkywatcherAPI (sconst TTY_OK) (sconst (TTY_OK, ''=000000'' @ [CHR 0x0D])))
          \<lparr>CurrentEncoders := (\<lambda>Axis. 0x800000)\<rparr>)))
   \<and> fst (GetEncoder (\<lambda>str pos base. 0) AXIS1
       ((new_SkywatcherAPI (sconst TTY_OK) (sconst (TTY_OK, ''=000000'' @ [CHR 0x0D])))
          \<lparr>CurrentEncoders := (\<lambda>Axis. 0x800000)\<rparr>))
   \<and> CurrentEncoders (snd (GetEncoder (\<lambda>str pos base. 0) AXIS1
       ((new_SkywatcherAPI (sconst TTY_OK) (sconst (TTY_OK, ''=000000'' @ [CHR 0x0D])))
          \<lparr>CurrentEncoders := (\<lambda>Axis. 0x800000)\<rparr>))) AXIS1 = 0x800000"
proof -
  let ?s = "(new_SkywatcherAPI (sconst TTY_OK) (sconst (TTY_OK, ''=000000'' @ [CHR 0x0D])))
          \<lparr>CurrentEncoders := (\<lambda>Axis. 0x800000)\<rparr>"
  have legacy: "\<not> SupportAdvancedCommandSet ?s"
    by (simp add: new_SkywatcherAPI_def)
  have talk: "TalkWithAxis AXIS1 CHR ''j'' [] [] ?s =
      ((True, ''000000''), ?s\<lparr>trace := [Flush, Write CHR ''j'' AXIS1 [], ReadSection]\<rparr>)"
    by (simp add: TalkWithAxis_first_try new_SkywatcherAPI_def)
  have dec: "BCDstr2long ''000000'' = 0"
    by (simp add: BCDstr2long_def HEX_def char_int_def)
  show ?thesis
    using GetEncoder_legacy_nonpositive [OF legacy talk, of "\<lambda>str pos base. 0"] legacy talk dec
    by (simp add: new_SkywatcherAPI_def)
qed

subsection \<open>Axis status\<close>

lemma phase_count_update [simp]:
  "phase_count (st\<lparr>SlewingForward := f\<rparr>) = phase_count st"
  "phase_count (st\<lparr>HighSpeed := h\<rparr>) = phase_count st"
  "phase_count (st\<lparr>NotInitialized := n\<rparr>) = phase_count st"
  "phase_count (st\<lparr>FullStop := a, Slewing := b, SlewingTo := c\<rparr>) = of_bool a + of_bool b + of_bool c"
  "phase_count (st\<lparr>FullStop := a, SlewingTo := c, Slewing := b\<rparr>) = of_bool a + of_bool b + of_bool c"
  by (simp_all add: phase_count_def)

lemma AxesStatus_update_status [simp]:
  "AxesStatus (update_status Axis f s) Axis = f (AxesStatus s Axis)"
  by (simp add: update_status_def)

lemma GetStatus_phase:
  assumes "GetStatus stol Axis s = Some (True, s')"
  shows "phase_count (AxesStatus s' Axis) = 1"
proof -
  obtain ok Response s1 where t: "TalkWithAxis Axis CHR ''f'' [] [] s = ((ok, Response), s1)"
    by (metis prod.exhaust)
  with assms have ok by (auto simp: GetStatus_def split: if_splits)
  with assms t obtain r1 s2 r0 r2 where
    s2: "(if char_int r1 AND 0x01 \<noteq> 0 then do {
                 r0 \<leftarrow> string_at Response 0;
                 Some (if char_int r0 AND 0x01 \<noteq> 0
                       then update_status Axis
                              (\<lambda>st. st\<lparr>FullStop := False, Slewing := True, SlewingTo := False\<rparr>) s1
                       else update_status Axis
                              (\<lambda>st. st\<lparr>FullStop := False, SlewingTo := True, Slewing := False\<rparr>) s1)
               }
               else
                 Some (update_status Axis
                         (\<lambda>st. st\<lparr>FullStop := True, Slewing := False, SlewingTo := False\<rparr>)
                         (if SlewingTo (AxesStatus s1 Axis) then snd (GetEncoder stol Axis s1)
                          else s1))) = Some s2"
    and s': "s' = update_status Axis (\<lambda>st. st\<lparr>NotInitialized := (char_int r2 AND 1 = 0)\<rparr>)
                 (update_status Axis (\<lambda>st. st\<lparr>HighSpeed := (char_int r0 AND 0x04 \<noteq> 0)\<rparr>)
                   (update_status Axis (\<lambda>st. st\<lparr>SlewingForward := (char_int r0 AND 0x02 = 0)\<rparr>) s2))"
    by (auto simp: GetStatus_def bind_eq_Some_conv Let_def)
  from s2 have "phase_count (AxesStatus s2 Axis) = 1"
    by (auto simp: bind_eq_Some_conv split: if_splits)
  with s' show ?thesis by simp
qed

text \<open>
  C6. After a status query that succeeds, and after \<open>SetFullStop\<close>, \<open>SetSlewing\<close> and
  \<open>SetSlewingTo\<close>, exactly one of \<open>FullStop\<close>, \<open>Slewing\<close> and \<open>SlewingTo\<close> is set.
\<close>

theorem phase_exclusive:
  "(GetStatus stol Axis s = Some (True, s') \<longrightarrow> phase_count (AxesStatus s' Axis) = 1)
   \<and> phase_count (SetFullStop st) = 1
   \<and> phase_count (SetSlewing forward highspeed st) = 1
   \<and> phase_count (SetSlewingTo forward highspeed st) = 1"
  by (simp add: GetStatus_phase)
    (simp add: phase_count_def SetFullStop_def SetSlewing_def SetSlewingTo_def)

theorem phase_exclusive_witness:
  "(case GetStatus (\<lambda>str pos base. 0) AXIS1
            (new_SkywatcherAPI (sconst TTY_OK) (sconst (TTY_OK, ''=101'' @ [CHR 0x0D]))) of
       Some (True, s') \<Rightarrow> phase_count (AxesStatus s' AXIS1) = 1 \<and> FullStop (AxesStatus s' AXIS1)
     | _ \<Rightarrow> False)"
proof -
  let ?s = "new_SkywatcherAPI (sconst TTY_OK) (sconst (TTY_OK, ''=101'' @ [CHR 0x0D]))"
  obtain s' where run: "GetStatus (\<lambda>str pos base. 0) AXIS1 ?s = Some (True, s')"
    and stop: "FullStop (AxesStatus s' AXIS1)"
    by (simp add: GetStatus_def TalkWithAxis_first_try new_SkywatcherAPI_def string_at_def
          char_int_def update_status_def)
  from phase_exclusive [of "\<lambda>str pos base. 0" AXIS1 ?s s'] run stop show ?thesis
    by simp
qed

subsection \<open>Slewing to an offset\<close>

text \<open>
  C9. \<open>SlewTo\<close> with offset 0 returns at once: the whole state, and with it the trace of
  the transport and every axis status, is unchanged.
\<close>

theorem SlewTo_zero: "SlewTo stol Axis 0 verbose s = Some s"
  by (simp add: SlewTo_def)

subsection \<open>Microsteps per revolution of the 114GT\<close>

lemma scaled_114GT: "double_to_long (long_to_double 0x205318 * 0.655) = Some 1387567"
  by (simp add: double_to_long_def long_to_double_def truncate_real_def)

lemma run_session_114GT:
  "\<exists>s'. GetMicrostepsPerRevolution stol_unused AXIS1 session_114GT = Some (True, s')
      \<and> MicrostepsPerRevolution s' AXIS1 = 1387567"
  by (simp add: GetMicrostepsPerRevolution_def TalkWithAxis_first_try new_SkywatcherAPI_def
        session_114GT_def BCDstr2long_def HEX_def char_int_def MountType_114GT_def
        IsMerlinMount_def double_to_long_def long_to_double_def truncate_real_def
        double_div_def M_PI_def)

text \<open>
  C3 (as stated, refuted). With mount type 0x82 and an answer of 9024000 microsteps,
  \<open>GetMicrostepsPerRevolution\<close> succeeds and stores 1387567, not 0x205318 = 2118424: the
  type 0x82 lies in the Merlin range too, and the fixed value is scaled by 0.655.
\<close>

theorem GetMicrostepsPerRevolution_114GT_counterexample:
  "MountCode session_114GT = 0x82
   \<and> GetMicrostepsPerRevolution stol_unused AXIS1 session_114GT \<noteq> None
   \<and> fst (the (GetMicrostepsPerRevolution stol_unused AXIS1 session_114GT))
   \<and> MicrostepsPerRevolution
        (snd (the (GetMicrostepsPerRevolution stol_unused AXIS1 session_114GT))) AXIS1 = 1387567
   \<and> MicrostepsPerRevolution
        (snd (the (GetMicrostepsPerRevolution stol_unused AXIS1 session_114GT))) AXIS1 \<noteq> 0x205318"
proof -
  from run_session_114GT obtain s' where
    "GetMicrostepsPerRevolution stol_unused AXIS1 session_114GT = Some (True, s')"
    and "MicrostepsPerRevolution s' AXIS1 = 1387567"
    by blast
  then show ?thesis
    by (simp add: session_114GT_def new_SkywatcherAPI_def)
qed

text \<open>
  C3 (amended). For mount type 0x82, after a successful \<open>GetMicrostepsPerRevolution\<close> the
  stored \<open>MicrostepsPerRevolution\<close> of the axis is 1387567, the fixed value 0x205318
  multiplied by 0.655 and truncated, whatever the firmware reported.
\<close>

theorem GetMicrostepsPerRevolution_114GT:
  assumes "MountCode s = MountType_114GT"
    and "GetMicrostepsPerRevolution stol Axis s = Some (True, s')"
  shows "MicrostepsPerRevolution s' Axis = 1387567
         \<and> double_to_long (long_to_double 0x205318 * 0.655) = Some (MicrostepsPerRevolution s' Axis)"
proof -
  obtain ok tmp0 s1 where q:
    "(if SupportAdvancedCommandSet s then
              (case TalkWithAxis Axis CHR ''X'' rRESOLUTION [] s of
                 ((ok, Response), s1) \<Rightarrow> (ok, stol (drop 1 Response) 8 16, s1))
            else
              (case TalkWithAxis Axis CHR ''a'' [] [] s of
                 ((ok, Response), s1) \<Rightarrow> (ok, BCDstr2long Response, s1))) = (ok, tmp0, s1)"
    by (metis prod.exhaust)
  have mc: "MountCode s1 = MountCode s"
    using q by (auto split: if_splits prod.splits dest: TalkWithAxis_fields(3))
  have merlin: "IsMerlinMount s1"
    by (simp add: IsMerlinMount_def mc assms(1) MountType_114GT_def)
  from assms(2) scaled_114GT show ?thesis
    unfolding GetMicrostepsPerRevolution_def q
    by (auto simp: mc assms(1) merlin double_div_def bind_eq_Some_conv split: if_splits)
qed

theorem GetMicrostepsPerRevolution_114GT_witness:
  "MountCode session_114GT = MountType_114GT
   \<and> GetMicrostepsPerRevolution stol_unused AXIS1 session_114GT \<noteq> None
   \<and> fst (the (GetMicrostepsPerRevolution stol_unused AXIS1 session_114GT))
   \<and> MicrostepsPerRevolution
        (snd (the (GetMicrostepsPerRevolution stol_unused AXIS1 session_114GT))) AXIS1 = 1387567"
proof -
  have mc: "MountCode session_114GT = MountType_114GT"
    by (simp add: session_114GT_def new_SkywatcherAPI_def MountType_114GT_def)
  from run_session_114GT obtain s' where
    run: "GetMicrostepsPerRevolution stol_unused AXIS1 session_114GT = Some (True, s')"
    by blast
  from GetMicrostepsPerRevolution_114GT [OF mc run] show ?thesis
    by (simp add: run mc)
qed

subsection \<open>The margin of the low-speed goto\<close>

lemma or_return_falseE:
  assumes "or_return_false step rest = Some (True, s')"
  obtains s1 where "step = Some (True, s1)" and "rest s1 = Some (True, s')"
  using assms by (auto simp: or_return_false_def split: option.splits if_splits)

lemma InitMount_tail:
  assumes "InitMount stol s = Some (True, s')"
  shows "\<exists>s9 m1 m2.
           double_to_long (640 * SIDEREALRATE * MicrostepsPerRadian s9 AXIS1) = Some m1
         \<and> double_to_long (640 * SIDEREALRATE * MicrostepsPerRadian s9 AXIS2) = Some m2
         \<and> s' = s9\<lparr>LowSpeedGotoMargin := ((LowSpeedGotoMargin s9)(AXIS1 := m1))(AXIS2 := m2)\<rparr>"
  using assms unfolding InitMount_def
  apply (elim or_return_falseE)
  apply (simp only: Let_def)
  apply (elim or_return_falseE)
  apply (simp only: Let_def bind_eq_Some_conv case_prod_beta)
  apply (elim exE conjE or_return_falseE)
  apply (simp only: Let_def bind_eq_Some_conv case_prod_beta)
  apply (elim exE conjE)
  apply (auto simp: )
  done

lemma InitMount_run:
  "\<exists>s'. InitMount stol_unused (new_SkywatcherAPI (sconst TTY_OK) legacy_session_reads) = Some (True, s')
     \<and> MicrostepsPerRadian s' AXIS1 = 9024000 / (2 * M_PI)
     \<and> LowSpeedGotoMargin s' AXIS1 = 67027
     \<and> \<not> SupportAdvancedCommandSet s' \<and> MountCode s' = 0 \<and> MCVersion s' = 0x020400"
  by (simp add: InitMount_def or_return_false_def CheckIfDCMotor_def flush_read_buffer.simps
      transport_defs TalkWithAxis_first_try
      new_SkywatcherAPI_def legacy_session_reads_def
      GetMotorBoardVersion_def GetMicrostepsPerRevolution_def GetStepperClockFrequency_def
      GetHighSpeedRatio_def GetStatus_def
      BCDstr2long_def Highstr2long_def HEX_def char_int_def uint32_of_def
      MountType_114GT_def IsMerlinMount_def string_at_def update_status_def
      double_to_long_def long_to_double_def truncate_real_def double_div_def
      M_PI_def SIDEREALRATE_def Let_def)

text \<open>
  C4 (as stated, refuted). In the first example session \<open>InitMount\<close> succeeds with 9024000
  microsteps per revolution on axis 1 and stores the margin 67027; five times 640 times
  the sidereal rate times the microsteps per radian is 335137.
\<close>

theorem InitMount_LowSpeedGotoMargin_counterexample:
  "InitMount stol_unused (new_SkywatcherAPI (sconst TTY_OK) legacy_session_reads) \<noteq> None
   \<and> fst (the (InitMount stol_unused (new_SkywatcherAPI (sconst TTY_OK) legacy_session_reads)))
   \<and> LowSpeedGotoMargin
        (snd (the (InitMount stol_unused (new_SkywatcherAPI (sconst TTY_OK) legacy_session_reads))))
        AXIS1 = 67027
   \<and> double_to_long (5 * 640 * SIDEREALRATE * MicrostepsPerRadian
        (snd (the (InitMount stol_unused (new_SkywatcherAPI (sconst TTY_OK) legacy_session_reads))))
        AXIS1) = Some 335137"
proof -
  from InitMount_run obtain s' where
    run: "InitMount stol_unused (new_SkywatcherAPI (sconst TTY_OK) legacy_session_reads) = Some (True, s')"
    and mpr: "MicrostepsPerRadian s' AXIS1 = 9024000 / (2 * M_PI)"
    and margin: "LowSpeedGotoMargin s' AXIS1 = 67027"
    by blast
  have "double_to_long (5 * 640 * SIDEREALRATE * (9024000 / (2 * M_PI))) = Some 335137"
    by (simp add: double_to_long_def truncate_real_def SIDEREALRATE_def M_PI_def)
  then show ?thesis
    by (simp add: run mpr margin)
qed

text \<open>
  C4 (amended). At the end of a successful \<open>InitMount\<close> the margin of each axis is
  \<open>640 * SIDEREALRATE * MicrostepsPerRadian\<close> of the axis, truncated: the microsteps of
  5 seconds at 128 times the sidereal rate.
\<close>

theorem InitMount_LowSpeedGotoMargin:
  assumes "InitMount stol s = Some (True, s')"
  shows "double_to_long (640 * SIDEREALRATE * MicrostepsPerRadian s' Axis)
           = Some (LowSpeedGotoMargin s' Axis)"
proof -
  from InitMount_tail [OF assms] obtain s9 m1 m2 where
    m1: "double_to_long (640 * SIDEREALRATE * MicrostepsPerRadian s9 AXIS1) = Some m1"
    and m2: "double_to_long (640 * SIDEREALRATE * MicrostepsPerRadian s9 AXIS2) = Some m2"
    and s': "s' = s9\<lparr>LowSpeedGotoMargin := ((LowSpeedGotoMargin s9)(AXIS1 := m1))(AXIS2 := m2)\<rparr>"
    by blast
  show ?thesis
    by (cases Axis) (simp_all add: s' m1 m2)
qed

theorem InitMount_LowSpeedGotoMargin_witness:
  "InitMount stol_unused (new_SkywatcherAPI (sconst TTY_OK) legacy_session_reads) \<noteq> None
   \<and> fst (the (InitMount stol_unused (new_SkywatcherAPI (sconst TTY_OK) legacy_session_reads)))
   \<and> double_to_long (640 * SIDEREALRATE * MicrostepsPerRadian
        (snd (the (InitMount stol_unused (new_SkywatcherAPI (sconst TTY_OK) legacy_session_reads))))
        AXIS1) = Some 67027"
proof -
  from InitMount_run obtain s' where
    run: "InitMount stol_unused (new_SkywatcherAPI (sconst TTY_OK) legacy_session_reads) = Some (True, s')"
    and margin: "LowSpeedGotoMargin s' AXIS1 = 67027"
    by blast
  from InitMount_LowSpeedGotoMargin [OF run, of AXIS1] show ?thesis
    by (simp add: run margin)
qed

subsection \<open>Motion mode of a slew\<close>

lemma last_command_append:
  "last_command (xs @ ys) = (case last_command ys of Some c \<Rightarrow> Some c | None \<Rightarrow> last_command xs)"
  by (induction xs) (auto split: option.splits)

lemma TalkWithAxis_last_command:
  "last_command (trace (snd (TalkWithAxis Axis Command cmdDataStr responseStr s)))
     = Some (Command, Axis, cmdDataStr)"
  by (simp add: TalkWithAxis_def talk_retry_loop_unroll transport_defs Let_def last_command_append
      split: prod.splits)

lemma SetMotionMode_last_command:
  "last_command (trace (snd (SetMotionMode Axis func Direction s)))
     = Some (CHR ''G'', Axis, [func, Direction])"
  using TalkWithAxis_last_command [of Axis "CHR ''G''" "[func, Direction]" "[]" s]
  by (auto simp: SetMotionMode_def split: prod.splits)

text \<open>A poll that ends within a bound ends, with the same state.\<close>

lemma poll_fuel_PollUntilFullStop:
  "poll_fuel n stol Axis s = Some s' \<Longrightarrow> PollUntilFullStop stol Axis s = Some s'"
proof (induction n arbitrary: s)
  case 0
  then show ?case by simp
next
  case (Suc n)
  show ?case
  proof (cases "GetStatus stol Axis s")
    case None
    with Suc.prems show ?thesis by simp
  next
    case (Some r)
    obtain ok s1 where r: "r = (ok, s1)" by (cases r)
    show ?thesis
    proof (cases "FullStop (AxesStatus s1 Axis)")
      case True
      with Suc.prems Some r show ?thesis
        by (subst PollUntilFullStop.simps) simp
    next
      case False
      with Suc.prems Some r have "poll_fuel n stol Axis (sleep_for 100 s1) = Some s'"
        by simp
      then have "PollUntilFullStop stol Axis (sleep_for 100 s1) = Some s'"
        by (rule Suc.IH)
      with False Some r show ?thesis
        by (subst PollUntilFullStop.simps) simp
    qed
  qed
qed

text \<open>A poll that ends does so within some bound.\<close>

lemma PollUntilFullStop_poll_fuel:
  assumes "PollUntilFullStop stol Axis s = Some s'"
  shows "\<exists>n. poll_fuel n stol Axis s = Some s'"
  using assms
proof (induction rule: PollUntilFullStop.raw_induct [rotated 1, consumes 1, case_names step])
  case (step poll stol Axis s s')
  note IH = step(1) and body = step(2)
  from body obtain ok s1 where status: "GetStatus stol Axis s = Some (ok, s1)"
    by (auto split: option.splits)
  show ?case
  proof (cases "FullStop (AxesStatus s1 Axis)")
    case True
    with body status have "poll_fuel (Suc 0) stol Axis s = Some s'" by simp
    then show ?thesis by blast
  next
    case False
    with body status have "poll stol Axis (sleep_for 100 s1) = Some s'" by simp
    then obtain n where "poll_fuel n stol Axis (sleep_for 100 s1) = Some s'"
      using IH by blast
    with False status have "poll_fuel (Suc n) stol Axis s = Some s'" by simp
    then show ?thesis by blast
  qed
qed

text \<open>A status query keeps the command set; in the legacy one \<open>SlowStop\<close> is one exchange.\<close>

lemma GetEncoder_SupportAdvancedCommandSet:
  "SupportAdvancedCommandSet (snd (GetEncoder stol Axis s)) = SupportAdvancedCommandSet s"
  by (auto simp: GetEncoder_def Let_def split: prod.splits dest: TalkWithAxis_fields(4))

lemma SupportAdvancedCommandSet_update_status [simp]:
  "SupportAdvancedCommandSet (update_status Axis f s) = SupportAdvancedCommandSet s"
  by (simp add: update_status_def)

lemma GetStatus_SupportAdvancedCommandSet:
  assumes "GetStatus stol Axis s = Some (ok, s1)"
  shows "SupportAdvancedCommandSet s1 = SupportAdvancedCommandSet s"
proof -
  obtain ok' Response s0 where t: "TalkWithAxis Axis CHR ''f'' [] [] s = ((ok', Response), s0)"
    by (metis prod.exhaust)
  have s0: "SupportAdvancedCommandSet s0 = SupportAdvancedCommandSet s"
    by (rule TalkWithAxis_fields(4) [OF t])
  from assms t s0 show ?thesis
    by (auto simp: GetStatus_def bind_eq_Some_conv Let_def
          GetEncoder_SupportAdvancedCommandSet split: if_splits)
qed

lemma SlowStop_legacy:
  "\<not> SupportAdvancedCommandSet s \<Longrightarrow>
     SlowStop stol Axis s =
       Some (Some (fst (fst (TalkWithAxis Axis CHR ''K'' [] [] s))),
             snd (TalkWithAxis Axis CHR ''K'' [] [] s))"
  by (simp add: SlowStop.simps split: prod.splits)

lemma PrepareForSlewing_selects:
  assumes legacy: "\<not> SupportAdvancedCommandSet s"
    and status: "GetStatus stol Axis s = Some (True, s1)"
    and reach:
      "FullStop (AxesStatus s1 Axis) \<and> s3 = s1
       \<or> \<not> FullStop (AxesStatus s1 Axis)
         \<and> (SlewingTo (AxesStatus s1 Axis)
            \<or> HighSpeed (AxesStatus s1 Axis)
            \<or> \<bar>Speed\<bar> \<ge> LOW_SPEED_MARGIN
            \<or> (SlewingForward (AxesStatus s1 Axis) \<and> Speed < 0)
            \<or> (\<not> SlewingForward (AxesStatus s1 Axis) \<and> Speed > 0))
         \<and> poll_fuel n stol Axis (snd (TalkWithAxis Axis CHR ''K'' [] [] s1)) = Some s3"
  shows "PrepareForSlewing stol Axis Speed s =
           Some (snd (SetMotionMode Axis
                        (if \<bar>Speed\<bar> > LOW_SPEED_MARGIN then CHR ''3'' else CHR ''1'')
                        (if Speed > 0 then CHR ''0'' else CHR ''1'') s3))"
proof (cases "FullStop (AxesStatus s1 Axis)")
  case True
  with reach have "s3 = s1" by blast
  with True status show ?thesis
    by (simp add: PrepareForSlewing.simps Let_def abs_if)
next
  case False
  from legacy status have legacy1: "\<not> SupportAdvancedCommandSet s1"
    by (simp add: GetStatus_SupportAdvancedCommandSet)
  from False reach have
    need: "SlewingTo (AxesStatus s1 Axis)
            \<or> HighSpeed (AxesStatus s1 Axis)
            \<or> \<bar>Speed\<bar> \<ge> LOW_SPEED_MARGIN
            \<or> (SlewingForward (AxesStatus s1 Axis) \<and> Speed < 0)
            \<or> (\<not> SlewingForward (AxesStatus s1 Axis) \<and> Speed > 0)"
    and "poll_fuel n stol Axis (snd (TalkWithAxis Axis CHR ''K'' [] [] s1)) = Some s3"
    by blast+
  then have poll: "PollUntilFullStop stol Axis (snd (TalkWithAxis Axis CHR ''K'' [] [] s1)) = Some s3"
    by (simp add: poll_fuel_PollUntilFullStop)
  from False need status show ?thesis
    by (simp add: PrepareForSlewing.simps SlowStop_legacy [OF legacy1] poll Let_def abs_if)
qed

text \<open>
  C8. In the legacy command set, when the status query succeeds and the axis is stopped,
  or is moving, has to be stopped first and reports a full stop within some number of
  polls after the stop command, \<open>PrepareForSlewing\<close> returns, and the last command it has
  written is \<open>G\<close> with the low-speed slew mode \<open>1\<close> when the magnitude of the rate is
  exactly \<open>LOW_SPEED_MARGIN\<close>, and with the high-speed slew mode \<open>3\<close> when the magnitude is
  strictly greater.
\<close>

theorem PrepareForSlewing_mode_boundary:
  assumes "\<not> SupportAdvancedCommandSet s"
    and "GetStatus stol Axis s = Some (True, s1)"
    and "FullStop (AxesStatus s1 Axis) \<and> s3 = s1
       \<or> \<not> FullStop (AxesStatus s1 Axis)
         \<and> (SlewingTo (AxesStatus s1 Axis)
            \<or> HighSpeed (AxesStatus s1 Axis)
            \<or> \<bar>Speed\<bar> \<ge> LOW_SPEED_MARGIN
            \<or> (SlewingForward (AxesStatus s1 Axis) \<and> Speed < 0)
            \<or> (\<not> SlewingForward (AxesStatus s1 Axis) \<and> Speed > 0))
         \<and> poll_fuel n stol Axis (snd (TalkWithAxis Axis CHR ''K'' [] [] s1)) = Some s3"
  shows "PrepareForSlewing stol Axis Speed s =
           Some (snd (SetMotionMode Axis
                        (if \<bar>Speed\<bar> > LOW_SPEED_MARGIN then CHR ''3'' else CHR ''1'')
                        (if Speed > 0 then CHR ''0'' else CHR ''1'') s3))
       \<and> (\<bar>Speed\<bar> = LOW_SPEED_MARGIN \<longrightarrow>
            last_command (trace (the (PrepareForSlewing stol Axis Speed s))) =
              Some (CHR ''G'', Axis, [CHR ''1'', if Speed > 0 then CHR ''0'' else CHR ''1'']))
       \<and> (\<bar>Speed\<bar> > LOW_SPEED_MARGIN \<longrightarrow>
            last_command (trace (the (PrepareForSlewing stol Axis Speed s))) =
              Some (CHR ''G'', Axis, [CHR ''3'', if Speed > 0 then CHR ''0'' else CHR ''1'']))"
  by (simp add: PrepareForSlewing_selects [OF assms] SetMotionMode_last_command)

lemma LOW_SPEED_MARGIN_bounds: "0 < LOW_SPEED_MARGIN" "LOW_SPEED_MARGIN < 1"
  by (simp_all add: LOW_SPEED_MARGIN_def SIDEREALRATE_def)

lemma GetStatus_session_stopped:
  "\<exists>s1. GetStatus stol_unused AXIS1 session_stopped = Some (True, s1)
      \<and> FullStop (AxesStatus s1 AXIS1)
      \<and> tty_writes s1 = sconst TTY_OK
      \<and> tty_reads s1 = sconst (TTY_OK, ''=101'' @ [CHR 0x0D])
      \<and> trace s1 = [Flush, Write CHR ''f'' AXIS1 [], ReadSection]"
  by (simp add: GetStatus_def TalkWithAxis_first_try session_stopped_def new_SkywatcherAPI_def
        string_at_def char_int_def update_status_def)

lemma session_moving_stops:
  "\<exists>s1 s3. GetStatus stol_unused AXIS1 session_moving = Some (True, s1)
      \<and> \<not> FullStop (AxesStatus s1 AXIS1)
      \<and> Slewing (AxesStatus s1 AXIS1) \<and> SlewingForward (AxesStatus s1 AXIS1)
      \<and> \<not> HighSpeed (AxesStatus s1 AXIS1)
      \<and> poll_fuel (Suc (Suc 0)) stol_unused AXIS1
           (snd (TalkWithAxis AXIS1 CHR ''K'' [] [] s1)) = Some s3
      \<and> tty_writes s3 = sconst TTY_OK
      \<and> tty_reads s3 = sconst (TTY_OK, ''='' @ [CHR 0x0D])
      \<and> trace s3 =
          [Flush, Write CHR ''f'' AXIS1 [], ReadSection,
           Flush, Write CHR ''K'' AXIS1 [], ReadSection,
           Flush, Write CHR ''f'' AXIS1 [], ReadSection, Sleep 100,
           Flush, Write CHR ''f'' AXIS1 [], ReadSection]"
  by (simp add: GetStatus_def TalkWithAxis_first_try session_moving_def new_SkywatcherAPI_def
        string_at_def char_int_def update_status_def sleep_for_def log_event_def)

theorem PrepareForSlewing_mode_boundary_witness:
  "\<not> SupportAdvancedCommandSet session_moving
   \<and> PrepareForSlewing stol_unused AXIS1 LOW_SPEED_MARGIN session_moving \<noteq> None
   \<and> trace (the (PrepareForSlewing stol_unused AXIS1 LOW_SPEED_MARGIN session_moving)) =
          [Flush, Write CHR ''f'' AXIS1 [], ReadSection,
           Flush, Write CHR ''K'' AXIS1 [], ReadSection,
           Flush, Write CHR ''f'' AXIS1 [], ReadSection, Sleep 100,
           Flush, Write CHR ''f'' AXIS1 [], ReadSection,
           Flush, Write CHR ''G'' AXIS1 ''10'', ReadSection]
   \<and> PrepareForSlewing stol_unused AXIS1 (- LOW_SPEED_MARGIN) session_moving \<noteq> None
   \<and> last_command
        (trace (the (PrepareForSlewing stol_unused AXIS1 (- LOW_SPEED_MARGIN) session_moving)))
       = Some (CHR ''G'', AXIS1, ''11'')
   \<and> PrepareForSlewing stol_unused AXIS1 (2 * LOW_SPEED_MARGIN) session_moving \<noteq> None
   \<and> last_command
        (trace (the (PrepareForSlewing stol_unused AXIS1 (2 * LOW_SPEED_MARGIN) session_moving)))
       = Some (CHR ''G'', AXIS1, ''30'')
   \<and> PrepareForSlewing stol_unused AXIS1 LOW_SPEED_MARGIN session_stopped \<noteq> None
   \<and> last_command
        (trace (the (PrepareForSlewing stol_unused AXIS1 LOW_SPEED_MARGIN session_stopped)))
       = Some (CHR ''G'', AXIS1, ''10'')
   \<and> PrepareForSlewing stol_unused AXIS1 1 session_stopped \<noteq> None
   \<and> last_command (trace (the (PrepareForSlewing stol_unused AXIS1 1 session_stopped)))
       = Some (CHR ''G'', AXIS1, ''30'')"
proof -
  have legacy_m: "\<not> SupportAdvancedCommandSet session_moving"
    by (simp add: session_moving_def new_SkywatcherAPI_def)
  have legacy_s: "\<not> SupportAdvancedCommandSet session_stopped"
    by (simp add: session_stopped_def new_SkywatcherAPI_def)
  from session_moving_stops obtain m1 m3 where
    status_m: "GetStatus stol_unused AXIS1 session_moving = Some (True, m1)"
    and moving: "\<not> FullStop (AxesStatus m1 AXIS1)"
    and poll: "poll_fuel (Suc (Suc 0)) stol_unused AXIS1
                 (snd (TalkWithAxis AXIS1 CHR ''K'' [] [] m1)) = Some m3"
    and io: "tty_writes m3 = sconst TTY_OK" "tty_reads m3 = sconst (TTY_OK, ''='' @ [CHR 0x0D])"
    and tr: "trace m3 =
          [Flush, Write CHR ''f'' AXIS1 [], ReadSection,
           Flush, Write CHR ''K'' AXIS1 [], ReadSection,
           Flush, Write CHR ''f'' AXIS1 [], ReadSection, Sleep 100,
           Flush, Write CHR ''f'' AXIS1 [], ReadSection]"
    by blast
  have reach_m:
    "FullStop (AxesStatus m1 AXIS1) \<and> m3 = m1
       \<or> \<not> FullStop (AxesStatus m1 AXIS1)
         \<and> (SlewingTo (AxesStatus m1 AXIS1)
            \<or> HighSpeed (AxesStatus m1 AXIS1)
            \<or> \<bar>Speed\<bar> \<ge> LOW_SPEED_MARGIN
            \<or> (SlewingForward (AxesStatus m1 AXIS1) \<and> Speed < 0)
            \<or> (\<not> SlewingForward (AxesStatus m1 AXIS1) \<and> Speed > 0))
         \<and> poll_fuel (Suc (Suc 0)) stol_unused AXIS1
              (snd (TalkWithAxis AXIS1 CHR ''K'' [] [] m1)) = Some m3"
    if "\<bar>Speed\<bar> \<ge> LOW_SPEED_MARGIN" for Speed
    using that moving poll by blast
  from GetStatus_session_stopped obtain s1 where
    status_s: "GetStatus stol_unused AXIS1 session_stopped = Some (True, s1)"
    and stop: "FullStop (AxesStatus s1 AXIS1)"
    by blast
  have reach_s:
    "FullStop (AxesStatus s1 AXIS1) \<and> s1 = s1
       \<or> \<not> FullStop (AxesStatus s1 AXIS1)
         \<and> (SlewingTo (AxesStatus s1 AXIS1)
            \<or> HighSpeed (AxesStatus s1 AXIS1)
            \<or> \<bar>Speed\<bar> \<ge> LOW_SPEED_MARGIN
            \<or> (SlewingForward (AxesStatus s1 AXIS1) \<and> Speed < 0)
            \<or> (\<not> SlewingForward (AxesStatus s1 AXIS1) \<and> Speed > 0))
         \<and> poll_fuel 0 stol_unused AXIS1
              (snd (TalkWithAxis AXIS1 CHR ''K'' [] [] s1)) = Some s1"
    for Speed
    using stop by blast
  have at: "\<bar>LOW_SPEED_MARGIN\<bar> \<ge> LOW_SPEED_MARGIN"
    and below: "\<bar>- LOW_SPEED_MARGIN\<bar> \<ge> LOW_SPEED_MARGIN"
    and above: "\<bar>2 * LOW_SPEED_MARGIN\<bar> \<ge> LOW_SPEED_MARGIN"
    using LOW_SPEED_MARGIN_bounds by simp_all
  have mode: "trace (snd (SetMotionMode AXIS1 CHR ''1'' CHR ''0'' m3)) =
          [Flush, Write CHR ''f'' AXIS1 [], ReadSection,
           Flush, Write CHR ''K'' AXIS1 [], ReadSection,
           Flush, Write CHR ''f'' AXIS1 [], ReadSection, Sleep 100,
           Flush, Write CHR ''f'' AXIS1 [], ReadSection,
           Flush, Write CHR ''G'' AXIS1 ''10'', ReadSection]"
    by (simp add: SetMotionMode_def TalkWithAxis_first_try io tr)
  from PrepareForSlewing_mode_boundary [OF legacy_m status_m reach_m [OF at]]
       PrepareForSlewing_mode_boundary [OF legacy_m status_m reach_m [OF below]]
       PrepareForSlewing_mode_boundary [OF legacy_m status_m reach_m [OF above]]
       PrepareForSlewing_mode_boundary [OF legacy_s status_s reach_s, of LOW_SPEED_MARGIN]
       PrepareForSlewing_mode_boundary [OF legacy_s status_s reach_s, of 1]
       LOW_SPEED_MARGIN_bounds legacy_m mode
  show ?thesis
    by (simp add: SetMotionMode_last_command)
qed

subsection \<open>Status flags after a slew\<close>

lemma PFS_run:
  "\<exists>s'. PrepareForSlewing stol_unused AXIS1 1 session_stopped = Some s'
      \<and> trace s' =
          [Flush, Write CHR ''f'' AXIS1 [], ReadSection,
           Flush, Write CHR ''G'' AXIS1 ''30'', ReadSection]
      \<and> tty_writes s' = sconst TTY_OK \<and> tty_reads s' = sconst (TTY_OK, ''=101'' @ [CHR 0x0D])
      \<and> MCVersion s' = 0 \<and> HighSpeedRatio s' AXIS1 = 16
      \<and> StepperClockFrequency s' AXIS1 = 64935
      \<and> MicrostepsPerRadian s' AXIS1 = 9024000 / (2 * M_PI)"
  using LOW_SPEED_MARGIN_bounds
  by (simp add: PrepareForSlewing.simps GetStatus_def TalkWithAxis_first_try
        session_stopped_def new_SkywatcherAPI_def string_at_def char_int_def update_status_def
        SetMotionMode_def Let_def)

lemma Slew_session_stopped:
  "\<exists>s'. Slew stol_unused AXIS1 1 True session_stopped = Some s'
      \<and> trace s' =
          [Flush, Write CHR ''f'' AXIS1 [], ReadSection,
           Flush, Write CHR ''G'' AXIS1 ''30'', ReadSection,
           Flush, Write CHR ''I'' AXIS1 ''060000'', ReadSection,
           Flush, Write CHR ''J'' AXIS1 [], ReadSection]
      \<and> Slewing (AxesStatus s' AXIS1) \<and> \<not> SlewingForward (AxesStatus s' AXIS1)
      \<and> \<not> HighSpeed (AxesStatus s' AXIS1)
      \<and> SlewingSpeed s' AXIS1 = 1"
proof -
  from PFS_run obtain s1 where
    run: "PrepareForSlewing stol_unused AXIS1 1 session_stopped = Some s1"
    and tr: "trace s1 =
          [Flush, Write CHR ''f'' AXIS1 [], ReadSection,
           Flush, Write CHR ''G'' AXIS1 ''30'', ReadSection]"
    and io: "tty_writes s1 = sconst TTY_OK" "tty_reads s1 = sconst (TTY_OK, ''=101'' @ [CHR 0x0D])"
    and mc: "MCVersion s1 = 0" and hsr: "HighSpeedRatio s1 AXIS1 = 16"
    and freq: "StepperClockFrequency s1 AXIS1 = 64935"
    and mpr: "MicrostepsPerRadian s1 AXIS1 = 9024000 / (2 * M_PI)"
    by blast
  have legacy: "\<not> SupportAdvancedCommandSet session_stopped"
    by (simp add: session_stopped_def new_SkywatcherAPI_def)
  have near_zero: "\<not> \<bar>1 :: real\<bar> \<le> SIDEREALRATE_div_1000"
    by (simp add: SIDEREALRATE_div_1000_def)
  have clamp: "\<not> (1 :: real) > MAX_SPEED" "\<not> (1 :: real) < - MAX_SPEED"
    by (simp_all add: MAX_SPEED_def)
  have ratio: "double_div 1 (long_to_double (HighSpeedRatio s1 AXIS1)) = Some (1 / 16)"
    by (simp add: hsr double_div_def long_to_double_def)
  have ticks: "RadiansPerSecondToClocksTicksPerMicrostep AXIS1 (1 / 16) s1 = Some 0"
    by (simp add: RadiansPerSecondToClocksTicksPerMicrostep_def freq mpr double_div_def
          double_to_long_def long_to_double_def truncate_real_def M_PI_def)
  have six: "Long2BCDstr 6 = ''060000''"
    by (simp add: Long2BCDstr_def hex_digits.simps setw_setfill_def hex_digit_def)
  show ?thesis
    using LOW_SPEED_MARGIN_bounds near_zero clamp ratio ticks
    by (simp add: Slew.simps legacy run mc six tr io
          SetClockTicksPerMicrostep_def StartMotion_def TalkWithAxis_first_try
          update_status_def SetSlewing_def)
qed

text \<open>
  C2 (the code at the failing input). In the legacy command set, with axis 1 stopped,
  \<open>Slew\<close> at 1 radian per second, silent mode ignored, commands the high-speed forward
  mode (\<open>G\<close> with \<open>30\<close>), the tick count and the start of the motion, and then records
  the status as slewing, not forward and not at high speed.
\<close>

theorem Slew_legacy_status_flags:
  "\<not> SupportAdvancedCommandSet session_stopped
   \<and> Slew stol_unused AXIS1 1 True session_stopped \<noteq> None
   \<and> trace (the (Slew stol_unused AXIS1 1 True session_stopped)) =
          [Flush, Write CHR ''f'' AXIS1 [], ReadSection,
           Flush, Write CHR ''G'' AXIS1 ''30'', ReadSection,
           Flush, Write CHR ''I'' AXIS1 ''060000'', ReadSection,
           Flush, Write CHR ''J'' AXIS1 [], ReadSection]
   \<and> Slewing (AxesStatus (the (Slew stol_unused AXIS1 1 True session_stopped)) AXIS1)
   \<and> \<not> SlewingForward (AxesStatus (the (Slew stol_unused AXIS1 1 True session_stopped)) AXIS1)
   \<and> \<not> HighSpeed (AxesStatus (the (Slew stol_unused AXIS1 1 True session_stopped)) AXIS1)
   \<and> SlewingSpeed (the (Slew stol_unused AXIS1 1 True session_stopped)) AXIS1 = 1"
proof -
  from Slew_session_stopped obtain s' where
    "Slew stol_unused AXIS1 1 True session_stopped = Some s'"
    and "trace s' =
          [Flush, Write CHR ''f'' AXIS1 [], ReadSection,
           Flush, Write CHR ''G'' AXIS1 ''30'', ReadSection,
           Flush, Write CHR ''I'' AXIS1 ''060000'', ReadSection,
           Flush, Write CHR ''J'' AXIS1 [], ReadSection]"
    and "Slewing (AxesStatus s' AXIS1)" and "\<not> SlewingForward (AxesStatus s' AXIS1)"
    and "\<not> HighSpeed (AxesStatus s' AXIS1)" and "SlewingSpeed s' AXIS1 = 1"
    by blast
  then show ?thesis
    by (simp add: session_stopped_def new_SkywatcherAPI_def)
qed

end
